theory Spec2Isabelle
  imports Complex_Main "HOL-Library.Sublist"
begin

section \<open>The ledger: \<^verbatim>\<open>app/blockchain/service.py\<close>\<close>

text \<open>
  The dataclasses \<^verbatim>\<open>Transaction\<close> and \<^verbatim>\<open>Block\<close>. Python's \<^verbatim>\<open>float\<close> amounts are
  modelled by \<^typ>\<open>real\<close>, Python's \<^verbatim>\<open>int\<close> by \<^typ>\<open>int\<close>. The field \<^verbatim>\<open>timestamp\<close> of a
  block is called \<open>block_timestamp\<close>, since a record field is a constant of the theory
  and the transaction has a field of that name already.
\<close>

record transaction =
  from_user :: string
  to_user :: string
  amount :: real
  transaction_type :: string
  timestamp :: string
  transaction_id :: string

record block =
  index :: int
  block_timestamp :: string
  transactions :: "transaction list"
  previous_hash :: string
  nonce :: int
  hash :: string

record blockchain =
  chain :: "block list"
  pending_transactions :: "transaction list"
  mining_reward :: real
  difficulty :: int

text \<open>
  \<^verbatim>\<open>calculate_hash\<close> serialises the five fields \<^verbatim>\<open>index\<close>, \<^verbatim>\<open>timestamp\<close>,
  \<^verbatim>\<open>transactions\<close>, \<^verbatim>\<open>previous_hash\<close> and \<^verbatim>\<open>nonce\<close> with \<^verbatim>\<open>json.dumps(..., sort_keys=True)\<close>
  and returns the hex digest of \<^verbatim>\<open>hashlib.sha256\<close>. Both are library functions; their
  composition is the parameter \<open>H\<close> of the model. The stored field \<^verbatim>\<open>hash\<close> is not
  part of what is hashed.
\<close>

type_synonym digest = "int \<times> string \<times> transaction list \<times> string \<times> int \<Rightarrow> string"

definition calculate_hash :: "digest \<Rightarrow> block \<Rightarrow> string" where
  "calculate_hash H b =
     H (index b, block_timestamp b, transactions b, previous_hash b, nonce b)"

text \<open>
  Python's slice \<^verbatim>\<open>s[:d]\<close> and the string \<^verbatim>\<open>"0" * d\<close>, for any integer \<open>d\<close>: a negative
  \<open>d\<close> cuts \<open>-d\<close> characters off the end of the slice and gives the empty product.
\<close>

definition py_prefix :: "int \<Rightarrow> string \<Rightarrow> string" where
  "py_prefix d s = (if 0 \<le> d then take (nat d) s else take (length s - nat (- d)) s)"

definition target :: "int \<Rightarrow> string" where
  "target d = replicate (nat d) (CHR ''0'')"

definition create_genesis_block :: "digest \<Rightarrow> string \<Rightarrow> blockchain \<Rightarrow> blockchain" where
  "create_genesis_block H now bc =
     (let genesis_block = \<lparr>index = 0, block_timestamp = now, transactions = [],
                            previous_hash = ''0'', nonce = 0, hash = ''''\<rparr>;
          genesis_block = genesis_block\<lparr>hash := calculate_hash H genesis_block\<rparr>
      in bc\<lparr>chain := chain bc @ [genesis_block]\<rparr>)"

text \<open>
  \<^verbatim>\<open>Blockchain.__init__\<close>: the two settings are read from \<^verbatim>\<open>app/config.py\<close>, where
  an environment variable can override the defaults below.
\<close>

definition settings_mining_reward :: real where
  "settings_mining_reward = 10"

definition settings_blockchain_difficulty :: int where
  "settings_blockchain_difficulty = 4"

definition Blockchain_init :: "digest \<Rightarrow> real \<Rightarrow> int \<Rightarrow> string \<Rightarrow> blockchain" where
  "Blockchain_init H reward d now =
     create_genesis_block H now
       \<lparr>chain = [], pending_transactions = [], mining_reward = reward, difficulty = d\<rparr>"

definition get_latest_block :: "blockchain \<Rightarrow> block option" where
  "get_latest_block bc = (if chain bc \<noteq> [] then Some (last (chain bc)) else None)"

text \<open>
  \<^verbatim>\<open>_validate_transaction\<close>: the truth value of a Python string is its being non-empty;
  the duplicate search runs over the blocks of \<^verbatim>\<open>self.chain\<close> only.
\<close>

definition validate_transaction :: "blockchain \<Rightarrow> transaction \<Rightarrow> bool" where
  "validate_transaction bc tx =
     (if \<not> (from_user tx \<noteq> [] \<and> to_user tx \<noteq> [] \<and> amount tx > 0 \<and> transaction_id tx \<noteq> [])
      then False
      else if list_ex (\<lambda>b. list_ex (\<lambda>t. transaction_id t = transaction_id tx) (transactions b))
                (chain bc)
      then False
      else True)"

definition add_transaction :: "blockchain \<Rightarrow> transaction \<Rightarrow> bool \<times> blockchain" where
  "add_transaction bc tx =
     (if \<not> validate_transaction bc tx then (False, bc)
      else (True, bc\<lparr>pending_transactions := pending_transactions bc @ [tx]\<rparr>))"

text \<open>
  \<^verbatim>\<open>mine_block\<close> is a \<^verbatim>\<open>while\<close> loop with no bound: whether it ends depends on the
  digest. Not returning is the value \<open>None\<close>.
\<close>

partial_function (option) mine_block :: "digest \<Rightarrow> int \<Rightarrow> block \<Rightarrow> block option" where
  "mine_block H d b =
     (if py_prefix d (hash b) \<noteq> target d
      then mine_block H d
             (let b1 = b\<lparr>nonce := nonce b + 1\<rparr> in b1\<lparr>hash := calculate_hash H b1\<rparr>)
      else Some b)"

text \<open>
  \<^verbatim>\<open>mine_pending_transactions\<close>. The three readings of the clock are inputs: the
  reward's timestamp \<open>t1\<close>, the milliseconds \<open>ms\<close> printed into the reward's id and the
  block's timestamp \<open>t2\<close>. The result is \<open>None\<close> when the mining loop does not return;
  otherwise the returned block (or Python's \<^verbatim>\<open>None\<close>) and the new state. With an empty
  chain \<^verbatim>\<open>get_latest_block()\<close> is \<^verbatim>\<open>None\<close>, the attribute access raises and the handler
  returns \<^verbatim>\<open>None\<close>.
\<close>

definition reward_transaction :: "string \<Rightarrow> string \<Rightarrow> string \<Rightarrow> blockchain \<Rightarrow> transaction" where
  "reward_transaction t1 ms mining_reward_address bc =
     \<lparr>from_user = ''system'', to_user = mining_reward_address,
      amount = mining_reward bc, transaction_type = ''mining_reward'',
      timestamp = t1, transaction_id = ''reward_'' @ ms\<rparr>"

definition new_block :: "string \<Rightarrow> transaction \<Rightarrow> block \<Rightarrow> blockchain \<Rightarrow> block" where
  "new_block t2 reward latest bc =
     \<lparr>index = int (length (chain bc)), block_timestamp = t2,
      transactions = pending_transactions bc @ [reward],
      previous_hash = hash latest, nonce = 0, hash = ''''\<rparr>"

definition mine_pending_transactions ::
  "digest \<Rightarrow> string \<Rightarrow> string \<Rightarrow> string \<Rightarrow> string \<Rightarrow> blockchain \<Rightarrow> (block option \<times> blockchain) option" where
  "mine_pending_transactions H t1 ms t2 mining_reward_address bc =
     (if pending_transactions bc = [] then Some (None, bc)
      else
        case get_latest_block bc of
          None \<Rightarrow> Some (None, bc)
        | Some latest \<Rightarrow>
            (case mine_block H (difficulty bc)
                    (new_block t2 (reward_transaction t1 ms mining_reward_address bc) latest bc) of
               None \<Rightarrow> None
             | Some mined \<Rightarrow>
                 Some (Some mined,
                       (bc\<lparr>chain := chain bc @ [mined]\<rparr>)\<lparr>pending_transactions := []\<rparr>)))"

text \<open>
  \<^verbatim>\<open>is_chain_valid\<close>: the loop \<^verbatim>\<open>for i in range(1, len(self.chain))\<close>, returning
  \<^verbatim>\<open>False\<close> at the first block that fails one of the three tests.
\<close>

function is_chain_valid_loop :: "digest \<Rightarrow> blockchain \<Rightarrow> nat \<Rightarrow> bool" where
  "is_chain_valid_loop H bc i =
     (if i < length (chain bc) then
        (let current_block = chain bc ! i;
             previous_block = chain bc ! (i - 1)
         in if hash current_block \<noteq> calculate_hash H current_block then False
            else if previous_hash current_block \<noteq> hash previous_block then False
            else if py_prefix (difficulty bc) (hash current_block) \<noteq> target (difficulty bc)
            then False
            else is_chain_valid_loop H bc (Suc i))
      else True)"
  by pat_completeness auto
termination
  by (relation "measure (\<lambda>(H, bc, i). length (chain bc) - i)") auto

declare is_chain_valid_loop.simps [simp del]

definition is_chain_valid :: "digest \<Rightarrow> blockchain \<Rightarrow> bool" where
  "is_chain_valid H bc = is_chain_valid_loop H bc 1"

text \<open>
  Sequences of the two operations on the ledger, run in order; \<open>None\<close> when a mining
  loop does not return.
\<close>

datatype ledger_op =
    AddTransaction transaction
  | MinePending string string string string

fun run_op :: "digest \<Rightarrow> blockchain \<Rightarrow> ledger_op \<Rightarrow> blockchain option" where
  "run_op H bc (AddTransaction tx) = Some (snd (add_transaction bc tx))"
| "run_op H bc (MinePending t1 ms t2 addr) =
     map_option snd (mine_pending_transactions H t1 ms t2 addr bc)"

fun run_ops :: "digest \<Rightarrow> blockchain \<Rightarrow> ledger_op list \<Rightarrow> blockchain option" where
  "run_ops H bc [] = Some bc"
| "run_ops H bc (e # es) =
     (case run_op H bc e of None \<Rightarrow> None | Some bc' \<Rightarrow> run_ops H bc' es)"

text \<open>
  The edit the chain-integrity test of the specification makes after sealing: the amount
  of transaction \<open>j\<close> of block \<open>i\<close> is overwritten with \<open>a\<close>; everything else, the stored
  hashes included, stays.
\<close>

definition set_amount :: "blockchain \<Rightarrow> nat \<Rightarrow> nat \<Rightarrow> real \<Rightarrow> blockchain" where
  "set_amount bc i j a =
     bc\<lparr>chain := (chain bc)[i := (chain bc ! i)
          \<lparr>transactions := (transactions (chain bc ! i))[j := (transactions (chain bc ! i) ! j)\<lparr>amount := a\<rparr>]\<rparr>]\<rparr>"

text \<open>
  A stand-in digest, used only where a statement is evaluated on concrete data (SHA-256
  itself is not part of the repository). It prints four leading zeros exactly when the
  nonce is odd, followed by two hexadecimal digits of a checksum of the hashed fields.
\<close>

definition hex_digit :: "nat \<Rightarrow> char" where
  "hex_digit k = ''0123456789abcdef'' ! (k mod 16)"

definition checksum :: "int \<times> string \<times> transaction list \<times> string \<times> int \<Rightarrow> nat" where
  "checksum c =
     (case c of (i, ts, txs, ph, n) \<Rightarrow>
        nat \<bar>i\<bar> + length ts + length ph + nat \<bar>n\<bar>
        + sum_list (map (\<lambda>t. nat \<lfloor>\<bar>amount t\<bar>\<rfloor> + length (transaction_id t)) txs))"

definition sample_digest :: digest where
  "sample_digest c =
     (if snd (snd (snd (snd c))) mod 2 = 1 then ''0000'' else ''c0de'')
     @ [hex_digit (checksum c div 16), hex_digit (checksum c)]"

declare mine_block.simps [code]

text \<open>
  Three predicates used in the proofs about the ledger: what \<open>mine_block\<close> establishes
  when it returns, the linkage of a chain, and the invariant of a ledger state.
\<close>

definition mined_from :: "digest \<Rightarrow> int \<Rightarrow> block \<Rightarrow> block \<Rightarrow> bool" where
  "mined_from H d b y \<longleftrightarrow>
     py_prefix d (hash y) = target d
     \<and> (y = b \<or> hash y = calculate_hash H y)
     \<and> index y = index b \<and> block_timestamp y = block_timestamp b
     \<and> transactions y = transactions b \<and> previous_hash y = previous_hash b"

definition linked :: "digest \<Rightarrow> block list \<Rightarrow> bool" where
  "linked H c \<longleftrightarrow>
     (\<forall>i. 0 < i \<and> i < length c \<longrightarrow>
        previous_hash (c ! i) = hash (c ! (i - 1)) \<and> hash (c ! i) = calculate_hash H (c ! i))"

definition ledger_inv :: "digest \<Rightarrow> blockchain \<Rightarrow> bool" where
  "ledger_inv H bc \<longleftrightarrow> chain bc \<noteq> [] \<and> linked H (chain bc) \<and> 0 < difficulty bc"

text \<open>
  Concrete ledger states for the evaluations below, all under the stand-in digest: a
  fresh ledger with the settings of \<^verbatim>\<open>app/config.py\<close>, the ledger after one accepted
  transaction and one mined block, and the ledger in which the same transaction was
  accepted twice before mining.
\<close>

definition sample_tx :: transaction where
  "sample_tx = \<lparr>from_user = ''alice'', to_user = ''bob'', amount = 50,
     transaction_type = ''p2p'', timestamp = ''t1'', transaction_id = ''tx_1''\<rparr>"

definition sample_genesis :: blockchain where
  "sample_genesis =
     Blockchain_init sample_digest settings_mining_reward settings_blockchain_difficulty ''t0''"

definition sample_mined :: blockchain where
  "sample_mined =
     \<lparr>chain =
        [\<lparr>index = 0, block_timestamp = ''t0'', transactions = [],
          previous_hash = ''0'', nonce = 0, hash = ''c0de03''\<rparr>,
         \<lparr>index = 1, block_timestamp = ''t3'',
          transactions = [sample_tx, 
            \<lparr>from_user = ''system'', to_user = ''system'', amount = 10,
             transaction_type = ''mining_reward'', timestamp = ''t2'',
             transaction_id = ''reward_1700''\<rparr>],
          previous_hash = ''c0de03'', nonce = 1, hash = ''000055''\<rparr>],
      pending_transactions = [], mining_reward = 10, difficulty = 4\<rparr>"

definition sample_pending :: blockchain where
  "sample_pending = snd (add_transaction sample_genesis sample_tx)"

definition sample_dup_block :: block where
  "sample_dup_block =
     \<lparr>index = 1, block_timestamp = ''t3'',
      transactions = [sample_tx, sample_tx,
        \<lparr>from_user = ''system'', to_user = ''system'', amount = 10,
         transaction_type = ''mining_reward'', timestamp = ''t2'',
         transaction_id = ''reward_1700''\<rparr>],
      previous_hash = ''c0de03'', nonce = 1, hash = ''00008b''\<rparr>"

definition sample_dup_mined :: blockchain where
  "sample_dup_mined =
     \<lparr>chain = chain sample_genesis @ [sample_dup_block],
      pending_transactions = [], mining_reward = 10, difficulty = 4\<rparr>"


section \<open>The anomaly scorer: \<^verbatim>\<open>app/ai/service.py\<close>\<close>

text \<open>
  A \<^verbatim>\<open>datetime\<close> is modelled by its number of microseconds since the epoch (the
  resolution of Python's type); all parsed timestamps are naive, as the ones the
  repository prints with \<^verbatim>\<open>datetime.utcnow().isoformat()\<close> are. A \<^verbatim>\<open>timedelta\<close> is a
  number of microseconds too.
\<close>

type_synonym datetime = int

definition total_seconds :: "int \<Rightarrow> real" where
  "total_seconds td = real_of_int td / 1000000"

definition hour :: "datetime \<Rightarrow> int" where
  "hour t = (t div 3600000000) mod 24"

definition weekday :: "datetime \<Rightarrow> int" where
  "weekday t = (t div 86400000000 + 3) mod 7"

text \<open>
  The transaction and the history entries are Python dictionaries read with
  \<^verbatim>\<open>.get\<close>, so a key may be absent (\<open>None\<close>). The value under \<^verbatim>\<open>'amount'\<close> is a number or
  anything else (\<open>NonNum\<close>: \<^verbatim>\<open>None\<close>, a string, ...), on which arithmetic and comparison
  with a number raise \<^verbatim>\<open>TypeError\<close>. The value under \<^verbatim>\<open>'timestamp'\<close> is a string that
  \<^verbatim>\<open>datetime.fromisoformat\<close> parses to a time, or anything else (\<open>NotIso\<close>), on which it
  raises.
\<close>

datatype pyval = Num real | NonNum

datatype tsval = IsoTime datetime | NotIso

record tx_dict =
  d_transaction_id :: "string option"
  d_amount :: "pyval option"
  d_timestamp :: "tsval option"

text \<open>\<^verbatim>\<open>tx.get('amount', 0)\<close>, and the same value where a number is needed.\<close>

definition get_amount :: "tx_dict \<Rightarrow> pyval" where
  "get_amount tx = (case d_amount tx of None \<Rightarrow> Num 0 | Some v \<Rightarrow> v)"

definition amount_num :: "tx_dict \<Rightarrow> real option" where
  "amount_num tx = (case get_amount tx of Num a \<Rightarrow> Some a | NonNum \<Rightarrow> None)"

text \<open>
  \<^verbatim>\<open>datetime.fromisoformat(transaction.get('timestamp', datetime.utcnow().isoformat()))\<close>
  for the transaction, with the clock reading \<open>now\<close> as an input, and
  \<^verbatim>\<open>datetime.fromisoformat(tx.get('timestamp', ''))\<close> for a history entry, where the
  default is the empty string, which does not parse. \<open>None\<close> stands for the exception.
\<close>

definition parse_tx_time :: "datetime \<Rightarrow> tx_dict \<Rightarrow> datetime option" where
  "parse_tx_time now tx =
     (case d_timestamp tx of None \<Rightarrow> Some now | Some (IsoTime t) \<Rightarrow> Some t | Some NotIso \<Rightarrow> None)"

definition parse_hist_time :: "tx_dict \<Rightarrow> datetime option" where
  "parse_hist_time tx =
     (case d_timestamp tx of None \<Rightarrow> None | Some (IsoTime t) \<Rightarrow> Some t | Some NotIso \<Rightarrow> None)"

text \<open>The numpy functions the features use, on lists of numbers.\<close>

definition np_mean :: "real list \<Rightarrow> real" where
  "np_mean xs = sum_list xs / real (length xs)"

definition np_std :: "real list \<Rightarrow> real" where
  "np_std xs = sqrt (np_mean (map (\<lambda>x. (x - np_mean xs)\<^sup>2) xs))"

definition np_median :: "real list \<Rightarrow> real" where
  "np_median xs =
     (let s = sort xs; n = length s
      in if even n then (s ! (n div 2 - 1) + s ! (n div 2)) / 2 else s ! (n div 2))"

definition log1p :: "real \<Rightarrow> real" where
  "log1p x = ln (1 + x)"

text \<open>
  The six aggregates of the amounts and the three statistics of the gaps between the
  sorted timestamps; nine zeros for an empty history. A history entry whose amount is not
  a number makes \<^verbatim>\<open>np.mean\<close> raise (\<open>None\<close>); an entry whose timestamp does not parse is
  skipped by the inner \<^verbatim>\<open>try\<close>.
\<close>

definition time_features :: "tx_dict list \<Rightarrow> real list" where
  "time_features user_history =
     (let timestamps = sort (List.map_filter parse_hist_time user_history)
      in if timestamps \<noteq> [] then
           (let time_diffs = map (\<lambda>i. total_seconds (timestamps ! i - timestamps ! (i - 1)))
                               [1..<length timestamps]
            in [if time_diffs \<noteq> [] then np_mean time_diffs else 0,
                if length time_diffs > 1 then np_std time_diffs else 0,
                if time_diffs \<noteq> []
                then real (length (filter (\<lambda>td. td < 300) time_diffs)) / real (length time_diffs)
                else 0])
         else [0, 0, 0])"

definition history_features :: "tx_dict list \<Rightarrow> real list option" where
  "history_features user_history =
     (if user_history \<noteq> [] then
        (case those (map amount_num user_history) of
           None \<Rightarrow> None
         | Some amounts \<Rightarrow>
             Some ([real (length amounts),
                    if amounts \<noteq> [] then np_mean amounts else 0,
                    if length amounts > 1 then np_std amounts else 0,
                    if amounts \<noteq> [] then np_median amounts else 0,
                    if amounts \<noteq> [] then Max (set amounts) else 0,
                    if amounts \<noteq> [] then Min (set amounts) else 0]
                   @ time_features user_history))
      else Some [0, 0, 0, 0, 0, 0, 0, 0, 0])"

text \<open>
  The velocity loop. Each entry runs inside its own \<^verbatim>\<open>try\<close>: an entry whose timestamp
  does not parse changes nothing; an entry whose amount is not a number raises at the
  first \<^verbatim>\<open>+=\<close> on an amount, after the counter before it was incremented.
\<close>

record velocity =
  last_hour_count :: real
  last_day_count :: real
  last_hour_amount :: real
  last_day_amount :: real

definition velocity_step :: "datetime \<Rightarrow> velocity \<Rightarrow> tx_dict \<Rightarrow> velocity" where
  "velocity_step current_time v tx =
     (case parse_hist_time tx of
        None \<Rightarrow> v
      | Some tx_time \<Rightarrow>
          (let time_diff = total_seconds (current_time - tx_time)
           in case get_amount tx of
                Num a \<Rightarrow>
                  (let v1 = (if time_diff \<le> 3600
                             then v\<lparr>last_hour_count := last_hour_count v + 1,
                                    last_hour_amount := last_hour_amount v + a\<rparr>
                             else v)
                   in if time_diff \<le> 86400
                      then v1\<lparr>last_day_count := last_day_count v1 + 1,
                               last_day_amount := last_day_amount v1 + a\<rparr>
                      else v1)
              | NonNum \<Rightarrow>
                  (if time_diff \<le> 3600 then v\<lparr>last_hour_count := last_hour_count v + 1\<rparr>
                   else if time_diff \<le> 86400 then v\<lparr>last_day_count := last_day_count v + 1\<rparr>
                   else v)))"

definition velocity_features :: "datetime \<Rightarrow> tx_dict list \<Rightarrow> real list" where
  "velocity_features current_time user_history =
     (let v = foldl (velocity_step current_time)
                \<lparr>last_hour_count = 0, last_day_count = 0,
                 last_hour_amount = 0, last_day_amount = 0\<rparr> user_history
      in [last_hour_count v, last_day_count v, last_hour_amount v, last_day_amount v])"

text \<open>
  \<^verbatim>\<open>extract_features\<close>. The body of the \<^verbatim>\<open>try\<close> is \<open>extract_features_try\<close>, with \<open>None\<close>
  for any exception; the handler returns \<^verbatim>\<open>np.zeros((1, 23))\<close>. The result is the one row
  of the array. \<open>str_len a\<close> stands for \<^verbatim>\<open>len(str(amount).split('.')[0])\<close>, the length of
  what Python prints before the first dot, which is a parameter.
\<close>

definition extract_features_try ::
  "(real \<Rightarrow> nat) \<Rightarrow> datetime \<Rightarrow> tx_dict \<Rightarrow> tx_dict list \<Rightarrow> real list option" where
  "extract_features_try str_len now transaction user_history =
     (case amount_num transaction of
        None \<Rightarrow> None
      | Some a \<Rightarrow>
          (case parse_tx_time now transaction of
             None \<Rightarrow> None
           | Some t \<Rightarrow>
               (case history_features user_history of
                  None \<Rightarrow> None
                | Some hf \<Rightarrow>
                    Some ([a, log1p a, real (str_len a), real_of_int (hour t),
                           real_of_int (weekday t)]
                          @ hf @ velocity_features t user_history))))"

definition extract_features ::
  "(real \<Rightarrow> nat) \<Rightarrow> datetime \<Rightarrow> tx_dict \<Rightarrow> tx_dict list \<Rightarrow> real list" where
  "extract_features str_len now transaction user_history =
     (case extract_features_try str_len now transaction user_history of
        Some features \<Rightarrow> features
      | None \<Rightarrow> replicate 23 0)"

text \<open>
  The service object: \<^verbatim>\<open>self.model\<close> as it stands when the score is computed (after
  the lazy \<^verbatim>\<open>_train_with_basic_data\<close>), given by its two methods on one row, where \<open>None\<close>
  is an exception of scikit-learn, and \<^verbatim>\<open>self.threshold\<close>.
\<close>

record anomaly_service =
  decision_function :: "real list \<Rightarrow> real option"
  predict :: "real list \<Rightarrow> int option"
  threshold :: real

definition settings_anomaly_threshold :: real where
  "settings_anomaly_threshold = 1 / 2"

record anomaly_result =
  r_transaction_id :: "string option"
  anomaly_score :: real
  is_anomalous :: bool
  risk_factors :: "string list"
  model_prediction :: string
  r_timestamp :: datetime

text \<open>
  Python's \<^verbatim>\<open>round(x, 4)\<close> on the real number line: the nearest multiple of \<open>1/10000\<close>,
  a tie going to the even one.
\<close>

definition round_half_even :: "real \<Rightarrow> int" where
  "round_half_even y =
     (let f = \<lfloor>y\<rfloor>; r = y - of_int f
      in if r < 1 / 2 then f else if r > 1 / 2 then f + 1 else if even f then f else f + 1)"

definition py_round4 :: "real \<Rightarrow> real" where
  "py_round4 x = of_int (round_half_even (x * 10000)) / 10000"

text \<open>
  The rule-based part of \<^verbatim>\<open>check_transaction_anomaly\<close>, on the state the source
  threads through it: the list \<^verbatim>\<open>risk_factors\<close> and the running \<^verbatim>\<open>normalized_score\<close>.
\<close>

definition large_amount_check :: "real \<Rightarrow> string list \<times> real \<Rightarrow> string list \<times> real" where
  "large_amount_check a st =
     (if a > 5000 then (fst st @ [''large_amount''], snd st + 2 / 10) else st)"

definition velocity_check :: "tx_dict list \<Rightarrow> real \<Rightarrow> string list \<times> real \<Rightarrow> string list \<times> real" where
  "velocity_check user_history a st =
     (if length user_history = 0 \<and> a > 1000
      then (fst st @ [''new_user_large_amount''], snd st + 3 / 10) else st)"

definition time_check :: "datetime \<Rightarrow> string list \<times> real \<Rightarrow> string list \<times> real" where
  "time_check tx_time st =
     (if hour tx_time < 6 \<or> hour tx_time > 23
      then (fst st @ [''unusual_time''], snd st + 1 / 10) else st)"

text \<open>
  The list comprehension of the rapid-transactions check parses every history entry
  with no \<^verbatim>\<open>try\<close> of its own: one timestamp that does not parse raises.
\<close>

definition recent_transactions :: "datetime \<Rightarrow> tx_dict list \<Rightarrow> tx_dict list option" where
  "recent_transactions tx_time user_history =
     (if list_all (\<lambda>tx. parse_hist_time tx \<noteq> None) user_history
      then Some (filter (\<lambda>tx. total_seconds (tx_time - the (parse_hist_time tx)) < 300)
                   user_history)
      else None)"

definition rapid_check ::
  "datetime \<Rightarrow> tx_dict list \<Rightarrow> string list \<times> real \<Rightarrow> (string list \<times> real) option" where
  "rapid_check tx_time user_history st =
     (if length user_history > 0 then
        (case recent_transactions tx_time user_history of
           None \<Rightarrow> None
         | Some recent \<Rightarrow>
             Some (if length recent > 3
                   then (fst st @ [''rapid_transactions''], snd st + 2 / 10) else st))
      else Some st)"

definition check_transaction_anomaly_try ::
  "anomaly_service \<Rightarrow> (real \<Rightarrow> nat) \<Rightarrow> datetime \<Rightarrow> tx_dict \<Rightarrow> tx_dict list \<Rightarrow> anomaly_result option" where
  "check_transaction_anomaly_try self str_len now transaction user_history =
     (let features = extract_features str_len now transaction user_history
      in case decision_function self features of
           None \<Rightarrow> None
         | Some score \<Rightarrow>
        (case predict self features of
           None \<Rightarrow> None
         | Some label \<Rightarrow>
        (let is_outlier = (label = - 1);
             normalized_score = max 0 (min 1 ((1 / 2 - score) / 1))
         in case amount_num transaction of
              None \<Rightarrow> None
            | Some a \<Rightarrow>
           (let st = velocity_check user_history a
                       (large_amount_check a ([], normalized_score))
            in case parse_tx_time now transaction of
                 None \<Rightarrow> None
               | Some tx_time \<Rightarrow>
              (case rapid_check tx_time user_history (time_check tx_time st) of
                 None \<Rightarrow> None
               | Some (factors, score_sum) \<Rightarrow>
                   (let normalized_score = min 1 score_sum;
                        anomalous = (normalized_score > threshold self \<or> is_outlier)
                    in Some \<lparr>r_transaction_id = d_transaction_id transaction,
                             anomaly_score = py_round4 normalized_score,
                             is_anomalous = anomalous,
                             risk_factors = factors,
                             model_prediction = (if is_outlier then ''outlier'' else ''normal''),
                             r_timestamp = now\<rparr>))))))"

definition analysis_error :: "datetime \<Rightarrow> tx_dict \<Rightarrow> anomaly_result" where
  "analysis_error now transaction =
     \<lparr>r_transaction_id = d_transaction_id transaction,
      anomaly_score = 0,
      is_anomalous = False,
      risk_factors = [''analysis_error''],
      model_prediction = ''error'',
      r_timestamp = now\<rparr>"

definition check_transaction_anomaly ::
  "anomaly_service \<Rightarrow> (real \<Rightarrow> nat) \<Rightarrow> datetime \<Rightarrow> tx_dict \<Rightarrow> tx_dict list \<Rightarrow> anomaly_result" where
  "check_transaction_anomaly self str_len now transaction user_history =
     (case check_transaction_anomaly_try self str_len now transaction user_history of
        Some result \<Rightarrow> result
      | None \<Rightarrow> analysis_error now transaction)"

text \<open>
  Stand-ins for the library parameters in concrete evaluations: a model that answers
  every row with the decision value \<open>d\<close> and, as scikit-learn does, labels it an outlier
  exactly when that value is negative; a count of the decimal digits of the integral
  part; and the clock reading 2024-01-01 12:00:00, a Monday.
\<close>

definition sample_model :: "real \<Rightarrow> anomaly_service" where
  "sample_model d =
     \<lparr>decision_function = (\<lambda>row. Some d),
      predict = (\<lambda>row. Some (if d < 0 then - 1 else 1)),
      threshold = settings_anomaly_threshold\<rparr>"

definition sample_str_len :: "real \<Rightarrow> nat" where
  "sample_str_len a = (if \<bar>a\<bar> < 10 then 1 else if \<bar>a\<bar> < 100 then 2 else if \<bar>a\<bar> < 1000 then 3 else 4)"

definition sample_noon :: datetime where
  "sample_noon = 1704110400000000"

definition sample_request :: "real \<Rightarrow> tx_dict" where
  "sample_request a =
     \<lparr>d_transaction_id = Some ''tx_1'', d_amount = Some (Num a),
      d_timestamp = Some (IsoTime sample_noon)\<rparr>"

text \<open>
  The rule-based adjustments as the specification lists them: the sum of the additions
  whose conditions hold and the tags in the order of the rules. \<open>recent_count\<close> is the
  number of history entries less than 300 seconds before the transaction (entries of the
  future included, whose difference is negative).
\<close>

definition recent_count :: "datetime \<Rightarrow> tx_dict list \<Rightarrow> nat" where
  "recent_count t user_history =
     length (filter (\<lambda>tx. total_seconds (t - the (parse_hist_time tx)) < 300) user_history)"

definition rule_adjustment :: "real \<Rightarrow> datetime \<Rightarrow> tx_dict list \<Rightarrow> real" where
  "rule_adjustment a t user_history =
     (if a > 5000 then 2 / 10 else 0)
     + (if user_history = [] \<and> a > 1000 then 3 / 10 else 0)
     + (if hour t < 6 \<or> hour t > 23 then 1 / 10 else 0)
     + (if recent_count t user_history > 3 then 2 / 10 else 0)"

definition rule_tags :: "real \<Rightarrow> datetime \<Rightarrow> tx_dict list \<Rightarrow> string list" where
  "rule_tags a t user_history =
     (if a > 5000 then [''large_amount''] else [])
     @ (if user_history = [] \<and> a > 1000 then [''new_user_large_amount''] else [])
     @ (if hour t < 6 \<or> hour t > 23 then [''unusual_time''] else [])
     @ (if recent_count t user_history > 3 then [''rapid_transactions''] else [])"

definition sample_bad_request :: tx_dict where
  "sample_bad_request =
     \<lparr>d_transaction_id = Some ''tx_2'', d_amount = Some (Num 100),
      d_timestamp = Some NotIso\<rparr>"



section \<open>The enhanced payment endpoint: \<^verbatim>\<open>app/main_enhanced.py\<close>\<close>

datatype TransactionStatus =
  DRAFT | AUTHORIZED | CONFIRMED | DECLINED_RISK | DECLINED_FUNDS | DECLINED_LIMIT

text \<open>
  The request model \<^verbatim>\<open>P2PPaymentRequest\<close> and the constraints of its fields, which the
  framework checks before the handler runs (a request that breaks one is answered with
  status 422 and the handler is not called).
\<close>

record P2PPaymentRequest =
  p_to_user :: string
  p_amount :: real
  p_description :: "string option"
  p_fingerprint_data :: string
  p_nonce :: string
  p_idempotency_key :: string

definition valid_request :: "P2PPaymentRequest \<Rightarrow> bool" where
  "valid_request r \<longleftrightarrow>
     5 \<le> length (p_to_user r) \<and> length (p_to_user r) \<le> 50
     \<and> 0 < p_amount r \<and> p_amount r \<le> 1000000
     \<and> (case p_description r of None \<Rightarrow> True | Some d \<Rightarrow> length d \<le> 200)
     \<and> 10 \<le> length (p_fingerprint_data r)
     \<and> 10 \<le> length (p_nonce r)
     \<and> 10 \<le> length (p_idempotency_key r)"

datatype message = Payment_already_processed | Payment_complete

record PaymentResponse =
  success :: bool
  resp_transaction_id :: string
  resp_message :: message
  new_balance :: "real option"
  recipient_name :: "string option"
  fraud_detected :: bool
  fraud_score :: "real option"
  resp_credit_used :: bool
  ledger_hash :: "string option"

text \<open>
  The global state. A user is a dictionary; \<^verbatim>\<open>credit_mode\<close>, \<^verbatim>\<open>credit_limit\<close> and
  \<^verbatim>\<open>credit_used\<close> are read with \<^verbatim>\<open>.get\<close> or written on demand, so they may be absent. A
  transaction record is the dictionary the handler appends to \<^verbatim>\<open>transactions_db\<close>; its
  key \<^verbatim>\<open>ledger_hash\<close> is set after the append. The dictionaries \<^verbatim>\<open>users_db\<close>,
  \<^verbatim>\<open>fingerprints_db\<close>, \<^verbatim>\<open>nonce_cache\<close> and \<^verbatim>\<open>idempotency_cache\<close> are maps.
\<close>

record user =
  balance :: real
  total_transactions :: int
  first_name :: string
  last_name :: string
  credit_mode :: "bool option"
  credit_limit :: "real option"
  credit_used :: "real option"

record payment_record =
  pr_transaction_id :: string
  pr_from_user :: string
  pr_to_user :: string
  pr_amount :: real
  pr_description :: "string option"
  pr_transaction_type :: string
  pr_status :: TransactionStatus
  pr_created_at :: datetime
  pr_blockchain_recorded :: bool
  pr_ai_fraud_score :: real
  pr_credit_used :: bool
  pr_ledger_hash :: "string option"

record ledger_block =
  block_id :: int
  lb_timestamp :: datetime
  lb_transaction :: payment_record
  lb_hash :: string

record app_state =
  users_db :: "string \<rightharpoonup> user"
  transactions_db :: "payment_record list"
  fingerprints_db :: "string \<rightharpoonup> string"
  blockchain_db :: "ledger_block list"
  nonce_cache :: "string \<rightharpoonup> datetime"
  idempotency_cache :: "string \<rightharpoonup> string"

text \<open>
  What a request reads from outside the state: the clock (\<^verbatim>\<open>datetime.utcnow()\<close>), the
  local hour (\<^verbatim>\<open>datetime.now().hour\<close>) and the 16 hexadecimal digits of the fresh UUID
  that \<^verbatim>\<open>generate_transaction_id\<close> prints. Every path of the handler draws at most one
  transaction id. The SHA-256 digest of the JSON text of a transaction record is the
  parameter \<open>sha\<close>.
\<close>

record request_env =
  utcnow :: datetime
  local_hour :: int
  uuid_hex :: string

datatype http_error =
    INVALID_NONCE
  | RECIPIENT_NOT_FOUND
  | SENDER_NOT_FOUND
  | FINGERPRINT_NOT_ENROLLED
  | AUTH_FAILED
  | FRAUD_DETECTED
  | INSUFFICIENT_FUNDS
  | CREDIT_LIMIT_EXCEEDED

definition generate_transaction_id :: "request_env \<Rightarrow> string" where
  "generate_transaction_id env = ''tx_'' @ uuid_hex env"

definition verify_fingerprint :: "string \<Rightarrow> string \<Rightarrow> bool \<times> real" where
  "verify_fingerprint stored_fp provided_fp =
     (let similarity = (if stored_fp = provided_fp then 95 / 100 else 2 / 10);
          is_match = (similarity > 8 / 10)
      in (is_match, similarity))"

definition detect_fraud :: "string \<Rightarrow> real \<Rightarrow> payment_record list \<Rightarrow> int \<Rightarrow> bool \<times> real" where
  "detect_fraud user_id a transaction_history current_hour =
     (let s0 = (if a > 1000 then 3 / 10 else 0);
          recent = filter (\<lambda>tx. pr_from_user tx = user_id) transaction_history;
          s1 = (if length recent > 5 then s0 + 2 / 10 else s0);
          s2 = (if current_hour < 6 \<or> current_hour > 23 then s1 + 1 / 10 else s1)
      in (s2 > 5 / 10, s2))"

definition add_to_blockchain ::
  "(payment_record \<Rightarrow> string) \<Rightarrow> datetime \<Rightarrow> payment_record \<Rightarrow> app_state \<Rightarrow> string \<times> app_state" where
  "add_to_blockchain sha now transaction_data st =
     (let b = \<lparr>block_id = int (length (blockchain_db st)) + 1, lb_timestamp = now,
                lb_transaction = transaction_data, lb_hash = sha transaction_data\<rparr>
      in (lb_hash b, st\<lparr>blockchain_db := blockchain_db st @ [b]\<rparr>))"

text \<open>
  \<^verbatim>\<open>validate_nonce\<close>, with \<^verbatim>\<open>timedelta(minutes=5)\<close> in microseconds. The entry is deleted
  on both paths that find it.
\<close>

definition nonce_ttl :: int where
  "nonce_ttl = 300000000"

definition validate_nonce :: "datetime \<Rightarrow> string \<Rightarrow> app_state \<Rightarrow> bool \<times> app_state" where
  "validate_nonce now n st =
     (case nonce_cache st n of
        None \<Rightarrow> (False, st)
      | Some issued \<Rightarrow>
          if now - issued > nonce_ttl
          then (False, st\<lparr>nonce_cache := (nonce_cache st)(n := None)\<rparr>)
          else (True, st\<lparr>nonce_cache := (nonce_cache st)(n := None)\<rparr>))"

definition check_idempotency :: "string \<Rightarrow> app_state \<Rightarrow> string option" where
  "check_idempotency k st = idempotency_cache st k"

definition store_idempotency :: "string \<Rightarrow> string \<Rightarrow> app_state \<Rightarrow> app_state" where
  "store_idempotency k tx_id st = st\<lparr>idempotency_cache := (idempotency_cache st)(k \<mapsto> tx_id)\<rparr>"

text \<open>\<^verbatim>\<open>get_nonce\<close>, with the 32 characters \<^verbatim>\<open>generate_nonce\<close> draws as an input.\<close>

definition get_nonce :: "datetime \<Rightarrow> string \<Rightarrow> app_state \<Rightarrow> app_state" where
  "get_nonce now n st = st\<lparr>nonce_cache := (nonce_cache st)(n \<mapsto> now)\<rparr>"

text \<open>
  An assignment to a key of a user's dictionary. \<^verbatim>\<open>sender\<close> and \<^verbatim>\<open>recipient\<close> are
  references into \<^verbatim>\<open>users_db\<close>, and the same dictionary when the recipient is the sender:
  every assignment reads the state the one before it left.
\<close>

definition update_user :: "string \<Rightarrow> (user \<Rightarrow> user) \<Rightarrow> app_state \<Rightarrow> app_state" where
  "update_user uid f st = st\<lparr>users_db := (users_db st)(uid := map_option f (users_db st uid))\<rparr>"

definition declined_record ::
  "request_env \<Rightarrow> string \<Rightarrow> P2PPaymentRequest \<Rightarrow> TransactionStatus \<Rightarrow> real \<Rightarrow> payment_record" where
  "declined_record env from_id payment_data status score =
     \<lparr>pr_transaction_id = generate_transaction_id env,
      pr_from_user = from_id,
      pr_to_user = p_to_user payment_data,
      pr_amount = p_amount payment_data,
      pr_description = p_description payment_data,
      pr_transaction_type = ''p2p'',
      pr_status = status,
      pr_created_at = utcnow env,
      pr_blockchain_recorded = False,
      pr_ai_fraud_score = score,
      pr_credit_used = False,
      pr_ledger_hash = None\<rparr>"

definition decline ::
  "http_error \<Rightarrow> payment_record \<Rightarrow> app_state \<Rightarrow> (http_error + PaymentResponse) \<times> app_state" where
  "decline e rec st = (Inl e, st\<lparr>transactions_db := transactions_db st @ [rec]\<rparr>)"

text \<open>
  The part of the handler after the funds check: the balance updates, the transaction
  record, the ledger entry, whose hash is then written into the record that both
  \<^verbatim>\<open>transactions_db\<close> and the new block hold, and the idempotency entry.
\<close>

definition process_payment ::
  "(payment_record \<Rightarrow> string) \<Rightarrow> request_env \<Rightarrow> P2PPaymentRequest \<Rightarrow> string \<Rightarrow> string
     \<Rightarrow> real \<Rightarrow> real \<Rightarrow> bool \<Rightarrow> app_state \<Rightarrow> (http_error + PaymentResponse) \<times> app_state" where
  "process_payment sha env payment_data idempotency_key from_id balance_after score used st =
     (let tx_id = generate_transaction_id env;
          st1 = update_user from_id (\<lambda>u. u\<lparr>balance := balance_after\<rparr>) st;
          st2 = update_user from_id (\<lambda>u. u\<lparr>total_transactions := total_transactions u + 1\<rparr>) st1;
          st3 = update_user (p_to_user payment_data)
                  (\<lambda>u. u\<lparr>balance := balance u + p_amount payment_data\<rparr>) st2;
          st4 = update_user (p_to_user payment_data)
                  (\<lambda>u. u\<lparr>total_transactions := total_transactions u + 1\<rparr>) st3;
          rec = \<lparr>pr_transaction_id = tx_id,
                 pr_from_user = from_id,
                 pr_to_user = p_to_user payment_data,
                 pr_amount = p_amount payment_data,
                 pr_description = p_description payment_data,
                 pr_transaction_type = ''p2p'',
                 pr_status = CONFIRMED,
                 pr_created_at = utcnow env,
                 pr_blockchain_recorded = True,
                 pr_ai_fraud_score = score,
                 pr_credit_used = used,
                 pr_ledger_hash = None\<rparr>;
          st5 = st4\<lparr>transactions_db := transactions_db st4 @ [rec]\<rparr>;
          (h, st6) = add_to_blockchain sha (utcnow env) rec st5;
          rec' = rec\<lparr>pr_ledger_hash := Some h\<rparr>;
          st7 = st6\<lparr>transactions_db := butlast (transactions_db st6) @ [rec'],
                    blockchain_db := butlast (blockchain_db st6)
                       @ [(last (blockchain_db st6))\<lparr>lb_transaction := rec'\<rparr>]\<rparr>;
          st8 = store_idempotency idempotency_key tx_id st7;
          name = (case users_db st8 (p_to_user payment_data) of
                    None \<Rightarrow> None
                  | Some u \<Rightarrow> Some (first_name u @ '' '' @ last_name u))
      in (Inr \<lparr>success = True,
               resp_transaction_id = tx_id,
               resp_message = Payment_complete,
               new_balance = Some balance_after,
               recipient_name = name,
               fraud_detected = False,
               fraud_score = Some score,
               resp_credit_used = used,
               ledger_hash = Some h\<rparr>, st8))"

text \<open>
  The sender of every request is the fixed \<^verbatim>\<open>"user_12345"\<close>. The funds check: a
  shortfall is declined when the sender has no credit mode (hard stop) or when it exceeds
  the credit limit (which defaults to 0); otherwise it is recorded as \<^verbatim>\<open>credit_used\<close> and
  the payment goes on. Each decline appends its transaction record.
\<close>

definition sender_id :: string where
  "sender_id = ''user_12345''"

definition funds_check ::
  "(payment_record \<Rightarrow> string) \<Rightarrow> request_env \<Rightarrow> P2PPaymentRequest \<Rightarrow> string \<Rightarrow> user \<Rightarrow> real
     \<Rightarrow> app_state \<Rightarrow> (http_error + PaymentResponse) \<times> app_state" where
  "funds_check sha env payment_data idempotency_key sender score st =
     (let balance_after = balance sender - p_amount payment_data
      in if balance_after < 0 then
           (if \<not> (case credit_mode sender of None \<Rightarrow> False | Some m \<Rightarrow> m) then
              decline INSUFFICIENT_FUNDS
                (declined_record env sender_id payment_data DECLINED_FUNDS score) st
            else
              (let limit = (case credit_limit sender of None \<Rightarrow> 0 | Some l \<Rightarrow> l)
               in if \<bar>balance_after\<bar> > limit then
                    decline CREDIT_LIMIT_EXCEEDED
                      (declined_record env sender_id payment_data DECLINED_LIMIT score) st
                  else
                    process_payment sha env payment_data idempotency_key sender_id
                      balance_after score True
                      (update_user sender_id (\<lambda>u. u\<lparr>credit_used := Some \<bar>balance_after\<bar>\<rparr>) st)))
         else
           process_payment sha env payment_data idempotency_key sender_id
             balance_after score False st)"

text \<open>
  The handler \<^verbatim>\<open>p2p_payment\<close> from its nonce check on: nonce, recipient, sender,
  fingerprint, fraud screen, funds. An \<^verbatim>\<open>HTTPException\<close> is the left summand; what the
  handler wrote before raising it stays written.
\<close>

definition p2p_payment_fresh ::
  "(payment_record \<Rightarrow> string) \<Rightarrow> request_env \<Rightarrow> P2PPaymentRequest \<Rightarrow> string \<Rightarrow> app_state
     \<Rightarrow> (http_error + PaymentResponse) \<times> app_state" where
  "p2p_payment_fresh sha env payment_data idempotency_key st0 =
     (let (nonce_ok, st) = validate_nonce (utcnow env) (p_nonce payment_data) st0
      in if \<not> nonce_ok then (Inl INVALID_NONCE, st)
         else if users_db st (p_to_user payment_data) = None then (Inl RECIPIENT_NOT_FOUND, st)
         else
           case users_db st sender_id of
             None \<Rightarrow> (Inl SENDER_NOT_FOUND, st)
           | Some sender \<Rightarrow>
               (case fingerprints_db st sender_id of
                  None \<Rightarrow> (Inl FINGERPRINT_NOT_ENROLLED, st)
                | Some stored_fp \<Rightarrow>
                    if \<not> fst (verify_fingerprint stored_fp (p_fingerprint_data payment_data))
                    then (Inl AUTH_FAILED, st)
                    else
                      (let transaction_history =
                             filter (\<lambda>tx. pr_from_user tx = sender_id) (transactions_db st);
                           (is_fraudulent, score) =
                             detect_fraud sender_id (p_amount payment_data) transaction_history
                               (local_hour env)
                       in if is_fraudulent then
                            decline FRAUD_DETECTED
                              (declined_record env sender_id payment_data DECLINED_RISK score) st
                          else funds_check sha env payment_data idempotency_key sender score st)))"

text \<open>
  The handler \<^verbatim>\<open>p2p_payment\<close>, which starts with the idempotency check.
  \<open>idempotency_key\<close> is the header of that name; the field of the same name in the
  body is not read. \<^verbatim>\<open>if existing_tx_id\<close> holds for a stored id that is not the empty
  string.
\<close>

definition p2p_payment ::
  "(payment_record \<Rightarrow> string) \<Rightarrow> request_env \<Rightarrow> P2PPaymentRequest \<Rightarrow> string \<Rightarrow> app_state
     \<Rightarrow> (http_error + PaymentResponse) \<times> app_state" where
  "p2p_payment sha env payment_data idempotency_key st =
     (case check_idempotency idempotency_key st of
        Some existing_tx_id \<Rightarrow>
          if existing_tx_id \<noteq> [] then
            (Inr \<lparr>success = True,
                  resp_transaction_id = existing_tx_id,
                  resp_message = Payment_already_processed,
                  new_balance = (case users_db st (p_to_user payment_data) of
                                   Some u \<Rightarrow> Some (balance u) | None \<Rightarrow> Some 0),
                  recipient_name = None,
                  fraud_detected = False,
                  fraud_score = None,
                  resp_credit_used = False,
                  ledger_hash = None\<rparr>, st)
          else p2p_payment_fresh sha env payment_data idempotency_key st
      | None \<Rightarrow> p2p_payment_fresh sha env payment_data idempotency_key st)"

text \<open>
  Runs of the two endpoints. A payment request that breaks a field constraint does not
  reach the handler and leaves the state as it is.
\<close>

datatype endpoint_event =
    GetNonce datetime string
  | P2P request_env P2PPaymentRequest string

fun run_event :: "(payment_record \<Rightarrow> string) \<Rightarrow> app_state \<Rightarrow> endpoint_event \<Rightarrow> app_state" where
  "run_event sha st (GetNonce now n) = get_nonce now n st"
| "run_event sha st (P2P env payment_data k) =
     (if valid_request payment_data then snd (p2p_payment sha env payment_data k st) else st)"

definition run_events ::
  "(payment_record \<Rightarrow> string) \<Rightarrow> app_state \<Rightarrow> endpoint_event list \<Rightarrow> app_state" where
  "run_events sha st evs = foldl (run_event sha) st evs"

fun issues :: "string \<Rightarrow> endpoint_event \<Rightarrow> bool" where
  "issues n (GetNonce now m) = (m = n)"
| "issues n (P2P env payment_data k) = False"

text \<open>The balance of an account, if the account exists, and the hard-stop policy flag.\<close>

definition balance_of :: "app_state \<Rightarrow> string \<Rightarrow> real option" where
  "balance_of st uid = map_option balance (users_db st uid)"

definition hard_stop :: "app_state \<Rightarrow> string \<Rightarrow> bool" where
  "hard_stop st uid =
     (case users_db st uid of
        None \<Rightarrow> True
      | Some u \<Rightarrow> \<not> (case credit_mode u of None \<Rightarrow> False | Some m \<Rightarrow> m))"

text \<open>
  A concrete state for the evaluations below: the fixed sender with balance 1000.00 and
  an enrolled fingerprint, a second user with balance 500.00, and one nonce issued a
  minute before noon. The stand-in digest of a transaction record prints its id.
\<close>

definition sample_user :: "string \<Rightarrow> real \<Rightarrow> user" where
  "sample_user name b =
     \<lparr>balance = b, total_transactions = 0, first_name = name, last_name = ''Doe'',
      credit_mode = None, credit_limit = None, credit_used = None\<rparr>"

definition sample_state :: app_state where
  "sample_state =
     \<lparr>users_db = [''user_12345'' \<mapsto> sample_user ''Ann'' 1000,
                  ''user_67890'' \<mapsto> sample_user ''Bob'' 500],
      transactions_db = [],
      fingerprints_db = [''user_12345'' \<mapsto> ''fingerprint-0001''],
      blockchain_db = [],
      nonce_cache = [''nonce-0000000001'' \<mapsto> sample_noon - 60000000],
      idempotency_cache = Map.empty\<rparr>"

definition sample_env :: request_env where
  "sample_env = \<lparr>utcnow = sample_noon, local_hour = 12, uuid_hex = ''0123456789abcdef''\<rparr>"

definition sample_payment :: "string \<Rightarrow> real \<Rightarrow> P2PPaymentRequest" where
  "sample_payment recipient a =
     \<lparr>p_to_user = recipient, p_amount = a, p_description = None,
      p_fingerprint_data = ''fingerprint-0001'', p_nonce = ''nonce-0000000001'',
      p_idempotency_key = ''key-0000000001''\<rparr>"

definition sample_sha :: "payment_record \<Rightarrow> string" where
  "sample_sha rec = ''sha-of-'' @ pr_transaction_id rec"

definition sample_paid :: app_state where
  "sample_paid =
     snd (p2p_payment sample_sha sample_env (sample_payment ''user_67890'' 100)
            ''key-0000000001'' sample_state)"

definition sample_after_failure :: app_state where
  "sample_after_failure =
     run_events sample_sha
       (snd (p2p_payment sample_sha sample_env (sample_payment ''user_00000'' 100)
               ''key-0000000001'' sample_state))
       [GetNonce sample_noon ''nonce-0000000002'']"


section \<open>The payment router: \<^verbatim>\<open>app/payments/router.py\<close>\<close>

text \<open>
  The collections are the lists of \<^verbatim>\<open>MockCollection\<close> in \<^verbatim>\<open>app/database.py\<close>:
  \<^verbatim>\<open>find_one\<close> returns the first document that matches, \<^verbatim>\<open>update_one\<close> changes the
  first document that matches, \<^verbatim>\<open>insert_one\<close> appends a copy with a fresh \<^verbatim>\<open>_id\<close>.
\<close>

record user_doc =
  user_id :: string
  u_balance :: real
  u_total_transactions :: int
  u_first_name :: string
  u_last_name :: string
  u_updated_at :: datetime

record transaction_doc =
  t_doc_id :: "string option"
  t_transaction_id :: string
  t_from_user :: string
  t_to_user :: string
  t_amount :: real
  t_description :: "string option"
  t_transaction_type :: string
  t_status :: string
  t_anomaly_score :: real
  t_is_flagged :: bool
  t_created_at :: datetime
  t_updated_at :: datetime
  t_processed_at :: "datetime option"
  t_blockchain_recorded :: "bool option"

record router_state =
  users :: "user_doc list"
  transactions_coll :: "transaction_doc list"
  blockchain_state :: blockchain

definition find_one :: "('a \<Rightarrow> bool) \<Rightarrow> 'a list \<Rightarrow> 'a option" where
  "find_one p xs = List.find p xs"

fun update_one :: "('a \<Rightarrow> bool) \<Rightarrow> ('a \<Rightarrow> 'a) \<Rightarrow> 'a list \<Rightarrow> 'a list" where
  "update_one p f [] = []"
| "update_one p f (x # xs) = (if p x then f x # xs else x # update_one p f xs)"

definition insert_one :: "string \<Rightarrow> transaction_doc \<Rightarrow> transaction_doc list \<Rightarrow> transaction_doc list" where
  "insert_one new_id doc xs = xs @ [doc\<lparr>t_doc_id := Some new_id\<rparr>]"

text \<open>
  The request model of \<^verbatim>\<open>app/models/transaction.py\<close> (its amount is positive), and what
  a request reads from outside the state: the clock, the hexadecimal digits of the
  transaction id, the \<^verbatim>\<open>_id\<close> the collection draws, the outcome of the fingerprint
  lookup and match (the external authenticator), the documents the history query
  returns, as the dictionaries built from them, and the clock readings of the ledger.
\<close>

record router_request =
  rq_to_user :: string
  rq_amount :: real
  rq_description :: "string option"
  rq_fingerprint_data :: string

datatype fingerprint_outcome = Not_enrolled | Decode_error | Match bool

record router_env =
  r_now :: datetime
  r_uuid_hex :: string
  r_doc_id :: string
  r_fingerprint :: fingerprint_outcome
  r_user_history :: "tx_dict list"
  r_iso :: string
  r_mine_t1 :: string
  r_mine_ms :: string
  r_mine_t2 :: string

datatype router_error =
    User_not_found_401
  | Fingerprint_not_enrolled_400
  | Fingerprint_failed_401
  | Insufficient_funds_400
  | Recipient_not_found_404
  | Processing_failed_500

datatype router_message = Flagged_for_review | Sent_successfully

record router_response =
  rs_success :: bool
  rs_transaction_id :: string
  rs_message :: router_message
  rs_balance_after :: "real option"
  rs_recipient_name :: "string option"
  rs_anomaly_flagged :: bool
  rs_anomaly_score :: "real option"
  rs_blockchain_recorded :: bool

text \<open>
  \<^verbatim>\<open>BlockchainService.add_transaction\<close>: the ledger's \<^verbatim>\<open>add_transaction\<close>, followed by
  mining when the pending buffer has reached 5 entries. \<open>None\<close> when the mining loop
  does not return.
\<close>

definition service_add_transaction ::
  "digest \<Rightarrow> router_env \<Rightarrow> string \<Rightarrow> string \<Rightarrow> real \<Rightarrow> string \<Rightarrow> string \<Rightarrow> blockchain
     \<Rightarrow> (bool \<times> blockchain) option" where
  "service_add_transaction H env sender recipient a kind tid bc =
     (let tx = \<lparr>from_user = sender, to_user = recipient, amount = a,
                 transaction_type = kind, timestamp = r_iso env, transaction_id = tid\<rparr>;
          added = add_transaction bc tx
      in if fst added \<and> length (pending_transactions (snd added)) \<ge> 5 then
           (case mine_pending_transactions H (r_mine_t1 env) (r_mine_ms env) (r_mine_t2 env)
                   ''system'' (snd added) of
              None \<Rightarrow> None
            | Some mined \<Rightarrow> Some (fst added, snd mined))
         else Some added)"

text \<open>
  Step 5 to 7 of \<^verbatim>\<open>process_p2p_payment\<close>. Both new balances are computed from the
  documents read before the first write. \<^verbatim>\<open>MockCollection.update_one\<close> applies \<^verbatim>\<open>$set\<close>
  and, because of its \<^verbatim>\<open>elif\<close>, skips the \<^verbatim>\<open>$inc\<close> of the same update.
\<close>

definition transfer ::
  "digest \<Rightarrow> router_env \<Rightarrow> string \<Rightarrow> router_request \<Rightarrow> user_doc \<Rightarrow> user_doc
     \<Rightarrow> transaction_doc \<Rightarrow> anomaly_result \<Rightarrow> router_state
     \<Rightarrow> ((router_error + router_response) \<times> router_state) option" where
  "transfer H env sender_user_id payment_request current_user recipient doc anomaly st =
     (let new_sender_balance = u_balance current_user - rq_amount payment_request;
          new_recipient_balance = u_balance recipient + rq_amount payment_request;
          users1 = update_one (\<lambda>u. user_id u = sender_user_id)
                     (\<lambda>u. u\<lparr>u_balance := new_sender_balance, u_updated_at := r_now env\<rparr>)
                     (users st);
          users2 = update_one (\<lambda>u. user_id u = rq_to_user payment_request)
                     (\<lambda>u. u\<lparr>u_balance := new_recipient_balance, u_updated_at := r_now env\<rparr>)
                     users1
      in case service_add_transaction H env sender_user_id (rq_to_user payment_request)
                (rq_amount payment_request) ''p2p'' (t_transaction_id doc) (blockchain_state st) of
           None \<Rightarrow> None
         | Some (blockchain_success, bc) \<Rightarrow>
             Some (Inr \<lparr>rs_success = True,
                        rs_transaction_id = t_transaction_id doc,
                        rs_message = Sent_successfully,
                        rs_balance_after = Some new_sender_balance,
                        rs_recipient_name =
                          Some (u_first_name recipient @ '' '' @ u_last_name recipient),
                        rs_anomaly_flagged = False,
                        rs_anomaly_score = Some (anomaly_score anomaly),
                        rs_blockchain_recorded = blockchain_success\<rparr>,
                   \<lparr>users = users2,
                    transactions_coll =
                      insert_one (r_doc_id env)
                        (doc\<lparr>t_status := ''completed'', t_processed_at := Some (r_now env),
                             t_blockchain_recorded := Some blockchain_success\<rparr>)
                        (transactions_coll st),
                    blockchain_state = bc\<rparr>))"

text \<open>
  \<^verbatim>\<open>process_p2p_payment\<close>, with the user that \<^verbatim>\<open>get_current_user\<close> looks up for the
  authenticated id. The scorer is called on the dictionary the handler builds, whose
  amount is the request's and whose timestamp is the clock's.
\<close>

definition scored_transaction :: "router_env \<Rightarrow> router_request \<Rightarrow> tx_dict" where
  "scored_transaction env payment_request =
     \<lparr>d_transaction_id = Some (''tx_'' @ r_uuid_hex env),
      d_amount = Some (Num (rq_amount payment_request)),
      d_timestamp = Some (IsoTime (r_now env))\<rparr>"

definition pending_doc ::
  "router_env \<Rightarrow> string \<Rightarrow> router_request \<Rightarrow> anomaly_result \<Rightarrow> transaction_doc" where
  "pending_doc env sender_user_id payment_request anomaly =
     \<lparr>t_doc_id = None,
      t_transaction_id = ''tx_'' @ r_uuid_hex env,
      t_from_user = sender_user_id,
      t_to_user = rq_to_user payment_request,
      t_amount = rq_amount payment_request,
      t_description = rq_description payment_request,
      t_transaction_type = ''p2p'',
      t_status = ''pending'',
      t_anomaly_score = anomaly_score anomaly,
      t_is_flagged = is_anomalous anomaly,
      t_created_at = r_now env,
      t_updated_at = r_now env,
      t_processed_at = None,
      t_blockchain_recorded = None\<rparr>"

definition flagged ::
  "router_env \<Rightarrow> transaction_doc \<Rightarrow> anomaly_result \<Rightarrow> router_state
     \<Rightarrow> (router_error + router_response) \<times> router_state" where
  "flagged env doc anomaly st =
     (Inr \<lparr>rs_success = False,
           rs_transaction_id = t_transaction_id doc,
           rs_message = Flagged_for_review,
           rs_balance_after = None,
           rs_recipient_name = None,
           rs_anomaly_flagged = True,
           rs_anomaly_score = Some (anomaly_score anomaly),
           rs_blockchain_recorded = False\<rparr>,
      st\<lparr>transactions_coll :=
           insert_one (r_doc_id env) (doc\<lparr>t_status := ''flagged''\<rparr>) (transactions_coll st)\<rparr>)"

definition process_p2p_payment ::
  "digest \<Rightarrow> anomaly_service \<Rightarrow> (real \<Rightarrow> nat) \<Rightarrow> router_env \<Rightarrow> string \<Rightarrow> router_request
     \<Rightarrow> router_state \<Rightarrow> ((router_error + router_response) \<times> router_state) option" where
  "process_p2p_payment H scorer str_len env sender_user_id payment_request st =
     (case find_one (\<lambda>u. user_id u = sender_user_id) (users st) of
        None \<Rightarrow> Some (Inl User_not_found_401, st)
      | Some current_user \<Rightarrow>
          (case r_fingerprint env of
             Not_enrolled \<Rightarrow> Some (Inl Fingerprint_not_enrolled_400, st)
           | Decode_error \<Rightarrow> Some (Inl Processing_failed_500, st)
           | Match is_authenticated \<Rightarrow>
               if \<not> is_authenticated then Some (Inl Fingerprint_failed_401, st)
               else if u_balance current_user < rq_amount payment_request
               then Some (Inl Insufficient_funds_400, st)
               else
                 (case find_one (\<lambda>u. user_id u = rq_to_user payment_request) (users st) of
                    None \<Rightarrow> Some (Inl Recipient_not_found_404, st)
                  | Some recipient \<Rightarrow>
                      (let anomaly = check_transaction_anomaly scorer str_len (r_now env)
                                       (scored_transaction env payment_request)
                                       (r_user_history env);
                           doc = pending_doc env sender_user_id payment_request anomaly
                       in if is_anomalous anomaly then Some (flagged env doc anomaly st)
                          else transfer H env sender_user_id payment_request current_user
                                 recipient doc anomaly st))))"

text \<open>The balance the collection holds for a user id.\<close>

definition stored_balance :: "router_state \<Rightarrow> string \<Rightarrow> real option" where
  "stored_balance st uid = map_option u_balance (find_one (\<lambda>u. user_id u = uid) (users st))"

text \<open>
  A concrete router state for the evaluations below: two users with balances 5000.00
  and 500.00 over the fresh sample ledger, and a request for 2000.00 at noon with an
  empty history and a fingerprint that matches.
\<close>

definition sample_router_state :: router_state where
  "sample_router_state =
     \<lparr>users =
        [\<lparr>user_id = ''user_a'', u_balance = 5000, u_total_transactions = 0,
          u_first_name = ''Ann'', u_last_name = ''Doe'', u_updated_at = 0\<rparr>,
         \<lparr>user_id = ''user_b'', u_balance = 500, u_total_transactions = 0,
          u_first_name = ''Bob'', u_last_name = ''Doe'', u_updated_at = 0\<rparr>],
      transactions_coll = [],
      blockchain_state = sample_genesis\<rparr>"

definition sample_router_env :: router_env where
  "sample_router_env =
     \<lparr>r_now = sample_noon, r_uuid_hex = ''0123456789abcdef'', r_doc_id = ''doc-1'',
      r_fingerprint = Match True, r_user_history = [], r_iso = ''2024-01-01T12:00:00'',
      r_mine_t1 = ''t2'', r_mine_ms = ''1700'', r_mine_t2 = ''t3''\<rparr>"

definition sample_router_request :: "string \<Rightarrow> real \<Rightarrow> router_request" where
  "sample_router_request recipient a =
     \<lparr>rq_to_user = recipient, rq_amount = a, rq_description = None,
      rq_fingerprint_data = ''fingerprint-0001''\<rparr>"



section \<open>Properties of the ledger\<close>

lemma mined_from_step:
  assumes "mined_from H d (b\<lparr>nonce := nonce b + 1,
              hash := calculate_hash H (b\<lparr>nonce := nonce b + 1\<rparr>)\<rparr>) y"
  shows "mined_from H d b y"
proof -
  define b2 where "b2 = b\<lparr>nonce := nonce b + 1,
              hash := calculate_hash H (b\<lparr>nonce := nonce b + 1\<rparr>)\<rparr>"
  have h2: "hash b2 = calculate_hash H b2"
    by (simp add: b2_def calculate_hash_def)
  have f2: "index b2 = index b" "block_timestamp b2 = block_timestamp b"
    "transactions b2 = transactions b" "previous_hash b2 = previous_hash b"
    by (simp_all add: b2_def)
  from assms have m: "mined_from H d b2 y" by (simp only: b2_def)
  then have p: "py_prefix d (hash y) = target d"
    and alt: "y = b2 \<or> hash y = calculate_hash H y"
    and f: "index y = index b2" "block_timestamp y = block_timestamp b2"
      "transactions y = transactions b2" "previous_hash y = previous_hash b2"
    unfolding mined_from_def by blast+
  from alt h2 have "hash y = calculate_hash H y" by blast
  with p f f2 show ?thesis unfolding mined_from_def by simp
qed

lemma mine_block_result:
  assumes "mine_block H d b = Some y"
  shows "mined_from H d b y"
proof (rule mine_block.raw_induct [where P = mined_from, OF _ assms])
  fix mb H d b y
  assume ih: "\<And>H d b y. mb H d b = Some y \<Longrightarrow> mined_from H d b y"
    and eq: "(if py_prefix d (hash b) \<noteq> target d
      then mb H d (let b1 = b\<lparr>nonce := nonce b + 1\<rparr> in b1\<lparr>hash := calculate_hash H b1\<rparr>)
      else Some b) = Some y"
  show "mined_from H d b y"
  proof (cases "py_prefix d (hash b) \<noteq> target d")
    case False
    with eq have "y = b" by simp
    with False show ?thesis by (simp add: mined_from_def)
  next
    case True
    with eq have "mb H d (b\<lparr>nonce := nonce b + 1,
              hash := calculate_hash H (b\<lparr>nonce := nonce b + 1\<rparr>)\<rparr>) = Some y"
      by (simp add: Let_def)
    then have "mined_from H d (b\<lparr>nonce := nonce b + 1,
              hash := calculate_hash H (b\<lparr>nonce := nonce b + 1\<rparr>)\<rparr>) y" by (rule ih)
    then show ?thesis by (rule mined_from_step)
  qed
qed

lemma mine_block_fresh:
  assumes "0 < d" "hash b = ''''" "mine_block H d b = Some y"
  shows "hash y = calculate_hash H y"
proof -
  from assms(1) have "target d \<noteq> []" by (simp add: target_def)
  with assms(1,2) have "py_prefix d (hash b) \<noteq> target d" by (simp add: py_prefix_def)
  moreover from mine_block_result [OF assms(3)] have "py_prefix d (hash y) = target d"
    and "y = b \<or> hash y = calculate_hash H y" by (simp_all add: mined_from_def)
  ultimately show ?thesis by auto
qed


lemma is_chain_valid_loop_iff:
  "is_chain_valid_loop H bc k \<longleftrightarrow>
     (\<forall>i. k \<le> i \<and> i < length (chain bc) \<longrightarrow>
        hash (chain bc ! i) = calculate_hash H (chain bc ! i)
        \<and> previous_hash (chain bc ! i) = hash (chain bc ! (i - 1))
        \<and> py_prefix (difficulty bc) (hash (chain bc ! i)) = target (difficulty bc))"
proof (induction H bc k rule: is_chain_valid_loop.induct)
  case (1 H bc i)
  define ok where "ok = (\<lambda>n. hash (chain bc ! n) = calculate_hash H (chain bc ! n)
        \<and> previous_hash (chain bc ! n) = hash (chain bc ! (n - 1))
        \<and> py_prefix (difficulty bc) (hash (chain bc ! n)) = target (difficulty bc))"
  have unfold: "is_chain_valid_loop H bc i =
      (if i < length (chain bc) then (if ok i then is_chain_valid_loop H bc (Suc i) else False)
       else True)"
    by (subst is_chain_valid_loop.simps) (simp add: ok_def Let_def)
  have ih: "i < length (chain bc) \<Longrightarrow> ok i \<Longrightarrow>
      is_chain_valid_loop H bc (Suc i) = (\<forall>n. Suc i \<le> n \<and> n < length (chain bc) \<longrightarrow> ok n)"
    using "1.IH" unfolding ok_def by blast
  have step: "ok i \<Longrightarrow> (\<forall>n. Suc i \<le> n \<and> n < length (chain bc) \<longrightarrow> ok n)
      = (\<forall>n. i \<le> n \<and> n < length (chain bc) \<longrightarrow> ok n)"
    by (metis Suc_leI le_neq_implies_less Suc_leD)
  have "is_chain_valid_loop H bc i = (\<forall>n. i \<le> n \<and> n < length (chain bc) \<longrightarrow> ok n)"
  proof (cases "i < length (chain bc)")
    case False
    then show ?thesis unfolding unfold by auto
  next
    case True
    show ?thesis
    proof (cases "ok i")
      case False
      with True show ?thesis unfolding unfold by auto
    next
      case ok: True
      with True show ?thesis unfolding unfold using ih step by simp
    qed
  qed
  then show ?case unfolding ok_def .
qed



lemma linked_append:
  assumes "linked H c" "c \<noteq> []" "previous_hash b = hash (last c)" "hash b = calculate_hash H b"
  shows "linked H (c @ [b])"
  unfolding linked_def
proof (intro allI impI)
  fix i assume i: "0 < i \<and> i < length (c @ [b])"
  show "previous_hash ((c @ [b]) ! i) = hash ((c @ [b]) ! (i - 1))
      \<and> hash ((c @ [b]) ! i) = calculate_hash H ((c @ [b]) ! i)"
  proof (cases "i < length c")
    case True
    with i assms(1) have "previous_hash (c ! i) = hash (c ! (i - 1))
        \<and> hash (c ! i) = calculate_hash H (c ! i)"
      unfolding linked_def by blast
    moreover from True have "(c @ [b]) ! i = c ! i" "(c @ [b]) ! (i - 1) = c ! (i - 1)"
      by (simp_all add: nth_append)
    ultimately show ?thesis by simp
  next
    case False
    with i have e: "i = length c" by simp
    from assms(2) have "(c @ [b]) ! (length c - 1) = last c"
      by (simp add: nth_append last_conv_nth)
    with e assms(3,4) show ?thesis by simp
  qed
qed

lemma add_transaction_chain: "chain (snd (add_transaction bc tx)) = chain bc"
  and add_transaction_difficulty: "difficulty (snd (add_transaction bc tx)) = difficulty bc"
  by (simp_all add: add_transaction_def)

lemma mine_pending_cases:
  assumes "mine_pending_transactions H t1 ms t2 addr bc = Some (r, bc')"
  shows "(r = None \<and> bc' = bc
            \<and> (pending_transactions bc = [] \<or> get_latest_block bc = None)) \<or>
         (\<exists>mined latest. r = Some mined \<and> pending_transactions bc \<noteq> []
            \<and> get_latest_block bc = Some latest
            \<and> mine_block H (difficulty bc)
                 (new_block t2 (reward_transaction t1 ms addr bc) latest bc) = Some mined
            \<and> bc' = (bc\<lparr>chain := chain bc @ [mined]\<rparr>)\<lparr>pending_transactions := []\<rparr>)"
proof (cases "pending_transactions bc = []")
  case True
  with assms show ?thesis by (simp add: mine_pending_transactions_def)
next
  case ne: False
  show ?thesis
  proof (cases "get_latest_block bc")
    case None
    with ne assms show ?thesis by (simp add: mine_pending_transactions_def)
  next
    case (Some latest)
    show ?thesis
    proof (cases "mine_block H (difficulty bc)
                 (new_block t2 (reward_transaction t1 ms addr bc) latest bc)")
      case None
      with ne Some assms show ?thesis by (simp add: mine_pending_transactions_def)
    next
      case m: (Some mined)
      with ne Some assms have "r = Some mined"
        and "bc' = (bc\<lparr>chain := chain bc @ [mined]\<rparr>)\<lparr>pending_transactions := []\<rparr>"
        by (simp_all add: mine_pending_transactions_def)
      with ne Some m show ?thesis by blast
    qed
  qed
qed

lemma run_op_inv:
  assumes "ledger_inv H bc" "run_op H bc e = Some bc'"
  shows "ledger_inv H bc' \<and> prefix (chain bc) (chain bc')"
proof (cases e)
  case (AddTransaction tx)
  with assms show ?thesis
    by (auto simp: ledger_inv_def add_transaction_chain add_transaction_difficulty)
next
  case (MinePending t1 ms t2 addr)
  with assms(2) obtain r where m: "mine_pending_transactions H t1 ms t2 addr bc = Some (r, bc')"
    by auto
  from mine_pending_cases [OF m] consider (same) "bc' = bc"
    | (mined) mined latest where "get_latest_block bc = Some latest"
      "mine_block H (difficulty bc)
         (new_block t2 (reward_transaction t1 ms addr bc) latest bc) = Some mined"
      "bc' = (bc\<lparr>chain := chain bc @ [mined]\<rparr>)\<lparr>pending_transactions := []\<rparr>"
    by blast
  then show ?thesis
  proof cases
    case same
    with assms(1) show ?thesis by simp
  next
    case mined
    note l = mined(1) and mb = mined(2) and bc' = mined(3)
    from assms(1) have d: "0 < difficulty bc" and ne: "chain bc \<noteq> []" and lk: "linked H (chain bc)"
      by (simp_all add: ledger_inv_def)
    from l ne have lat: "latest = last (chain bc)" by (simp add: get_latest_block_def)
    have h: "hash mined = calculate_hash H mined"
      by (rule mine_block_fresh [OF d _ mb]) (simp add: new_block_def)
    from mine_block_result [OF mb] have "previous_hash mined = hash latest"
      by (simp add: mined_from_def new_block_def)
    with lat have "previous_hash mined = hash (last (chain bc))" by simp
    from linked_append [OF lk ne this h] d bc' show ?thesis
      by (simp add: ledger_inv_def)
  qed
qed

lemma run_ops_inv:
  "ledger_inv H bc \<Longrightarrow> run_ops H bc es = Some bc' \<Longrightarrow>
     ledger_inv H bc' \<and> prefix (chain bc) (chain bc')"
proof (induction es arbitrary: bc)
  case Nil
  then show ?case by simp
next
  case (Cons e es)
  from Cons.prems(2) obtain b1 where s: "run_op H bc e = Some b1" and r: "run_ops H b1 es = Some bc'"
    by (auto split: option.splits)
  from run_op_inv [OF Cons.prems(1) s] have i1: "ledger_inv H b1" and p1: "prefix (chain bc) (chain b1)"
    by simp_all
  from Cons.IH [OF i1 r] p1 show ?case by (auto intro: prefix_order.trans)
qed

lemma run_ops_append:
  "run_ops H bc (es1 @ es2) = Some bc' \<Longrightarrow>
     \<exists>b1. run_ops H bc es1 = Some b1 \<and> run_ops H b1 es2 = Some bc'"
  by (induction es1 arbitrary: bc) (auto split: option.splits)

lemma init_inv: "0 < d \<Longrightarrow> ledger_inv H (Blockchain_init H r d now)"
  by (simp add: ledger_inv_def Blockchain_init_def create_genesis_block_def Let_def linked_def)

text \<open>
  Claim C9. Start from a fresh ledger (\<open>Blockchain_init\<close>, which appends the genesis block)
  with a positive difficulty, as the configured 4 is, and run any sequence of
  \<^verbatim>\<open>add_transaction\<close> and \<^verbatim>\<open>mine_pending_transactions\<close> calls that returns. In the state
  reached, every block after the first stores its predecessor's hash as \<open>previous_hash\<close>
  and its own recomputed hash as \<open>hash\<close>. The chain only grows: the chain reached after
  any initial part of the sequence is a prefix of the chain reached at the end, so no
  block is removed or overwritten.
\<close>

theorem chain_links_and_grows:
  assumes "0 < d"
    and "run_ops H (Blockchain_init H r d now) (ops1 @ ops2) = Some bc"
  shows "(\<forall>i. 0 < i \<and> i < length (chain bc) \<longrightarrow>
            previous_hash (chain bc ! i) = hash (chain bc ! (i - 1))
            \<and> hash (chain bc ! i) = calculate_hash H (chain bc ! i))
         \<and> (\<exists>bc1. run_ops H (Blockchain_init H r d now) ops1 = Some bc1
                \<and> prefix (chain bc1) (chain bc))"
proof -
  from run_ops_append [OF assms(2)] obtain b1
    where r1: "run_ops H (Blockchain_init H r d now) ops1 = Some b1"
      and r2: "run_ops H b1 ops2 = Some bc" by blast
  from run_ops_inv [OF init_inv [OF assms(1)] r1] have i1: "ledger_inv H b1" by simp
  from run_ops_inv [OF i1 r2] have "ledger_inv H bc" and "prefix (chain b1) (chain bc)"
    by simp_all
  with r1 show ?thesis by (auto simp: ledger_inv_def linked_def)
qed


lemma sample_run:
  "run_ops sample_digest sample_genesis
     ([AddTransaction sample_tx] @ [MinePending ''t2'' ''1700'' ''t3'' ''system''])
   = Some sample_mined"
  by code_simp

text \<open>
  Claim C2, as amended. \<^verbatim>\<open>is_chain_valid\<close> returns true exactly when every block at an
  index \<open>i \<ge> 1\<close> has a stored hash equal to its recomputed hash, a \<open>previous_hash\<close> equal
  to the stored hash of block \<open>i - 1\<close>, and a stored hash with the configured number of
  leading zeros; block 0, the genesis block, is never inspected. If the chain is valid
  and the amount of a transaction in a block at an index \<open>k \<ge> 1\<close> is overwritten with a
  different amount, the chain is no longer valid, provided the digest of the changed
  block differs from the digest of the original one (no collision of the digest).
\<close>

theorem is_chain_valid_iff:
  "(is_chain_valid H bc \<longleftrightarrow>
      (\<forall>i. 1 \<le> i \<and> i < length (chain bc) \<longrightarrow>
         hash (chain bc ! i) = calculate_hash H (chain bc ! i)
         \<and> previous_hash (chain bc ! i) = hash (chain bc ! (i - 1))
         \<and> py_prefix (difficulty bc) (hash (chain bc ! i)) = target (difficulty bc)))
   \<and> (is_chain_valid H bc \<and> 1 \<le> k \<and> k < length (chain bc)
        \<and> j < length (transactions (chain bc ! k))
        \<and> a \<noteq> amount (transactions (chain bc ! k) ! j)
        \<and> calculate_hash H (chain (set_amount bc k j a) ! k) \<noteq> calculate_hash H (chain bc ! k)
      \<longrightarrow> \<not> is_chain_valid H (set_amount bc k j a))"
proof (intro conjI impI)
  show iff: "is_chain_valid H bc \<longleftrightarrow>
      (\<forall>i. 1 \<le> i \<and> i < length (chain bc) \<longrightarrow>
         hash (chain bc ! i) = calculate_hash H (chain bc ! i)
         \<and> previous_hash (chain bc ! i) = hash (chain bc ! (i - 1))
         \<and> py_prefix (difficulty bc) (hash (chain bc ! i)) = target (difficulty bc))" for bc
    unfolding is_chain_valid_def by (rule is_chain_valid_loop_iff)
  assume h: "is_chain_valid H bc \<and> 1 \<le> k \<and> k < length (chain bc)
        \<and> j < length (transactions (chain bc ! k))
        \<and> a \<noteq> amount (transactions (chain bc ! k) ! j)
        \<and> calculate_hash H (chain (set_amount bc k j a) ! k) \<noteq> calculate_hash H (chain bc ! k)"
  then have k: "1 \<le> k" "k < length (chain bc)" by simp_all
  from h iff [of bc] k have stored: "hash (chain bc ! k) = calculate_hash H (chain bc ! k)"
    by blast
  from k have same: "hash (chain (set_amount bc k j a) ! k) = hash (chain bc ! k)"
    by (simp add: set_amount_def)
  from k have len: "k < length (chain (set_amount bc k j a))"
    by (simp add: set_amount_def)
  show "\<not> is_chain_valid H (set_amount bc k j a)"
  proof
    assume "is_chain_valid H (set_amount bc k j a)"
    with iff [of "set_amount bc k j a"] k(1) len
    have "hash (chain (set_amount bc k j a) ! k)
            = calculate_hash H (chain (set_amount bc k j a) ! k)"
      by blast
    with same stored h show False by simp
  qed
qed

text \<open>
  The amended C2 on the mined sample ledger: it is valid, block 1 passes the three
  tests, and changing the amount of its first transaction from 50 to 51 makes it invalid.
\<close>

theorem is_chain_valid_iff_witness:
  "is_chain_valid sample_digest sample_mined
   \<and> hash (chain sample_mined ! 1) = calculate_hash sample_digest (chain sample_mined ! 1)
   \<and> previous_hash (chain sample_mined ! 1) = hash (chain sample_mined ! 0)
   \<and> py_prefix (difficulty sample_mined) (hash (chain sample_mined ! 1))
        = target (difficulty sample_mined)
   \<and> (1::nat) \<le> 1 \<and> 1 < length (chain sample_mined)
   \<and> 0 < length (transactions (chain sample_mined ! 1))
   \<and> 51 \<noteq> amount (transactions (chain sample_mined ! 1) ! 0)
   \<and> calculate_hash sample_digest (chain (set_amount sample_mined 1 0 51) ! 1)
        \<noteq> calculate_hash sample_digest (chain sample_mined ! 1)
   \<and> \<not> is_chain_valid sample_digest (set_amount sample_mined 1 0 51)"
proof -
  have v: "is_chain_valid sample_digest sample_mined" by code_simp
  have p: "(1::nat) \<le> 1 \<and> 1 < length (chain sample_mined)
   \<and> 0 < length (transactions (chain sample_mined ! 1))
   \<and> 51 \<noteq> amount (transactions (chain sample_mined ! 1) ! 0)
   \<and> calculate_hash sample_digest (chain (set_amount sample_mined 1 0 51) ! 1)
        \<noteq> calculate_hash sample_digest (chain sample_mined ! 1)"
    by code_simp
  note t = is_chain_valid_iff [of sample_digest sample_mined 1 0 51]
  from t v p have "\<not> is_chain_valid sample_digest (set_amount sample_mined 1 0 51)"
    by blast
  moreover from t v p have "hash (chain sample_mined ! 1) = calculate_hash sample_digest (chain sample_mined ! 1)
   \<and> previous_hash (chain sample_mined ! 1) = hash (chain sample_mined ! (1 - 1))
   \<and> py_prefix (difficulty sample_mined) (hash (chain sample_mined ! 1))
        = target (difficulty sample_mined)"
    by blast
  moreover have "(1::nat) - 1 = 0" by simp
  ultimately show ?thesis using v p by metis
qed

text \<open>
  C2 as stated fails on the ledger \<^verbatim>\<open>Blockchain()\<close> builds: the genesis block is hashed
  once and never mined, so its hash need not start with zeros, and \<^verbatim>\<open>is_chain_valid\<close>
  returns true without looking at it. (With SHA-256 and the timestamp
  \<^verbatim>\<open>2024-01-01T00:00:00\<close> the genesis hash starts with \<^verbatim>\<open>6b02a80f\<close>.)
\<close>

theorem genesis_unchecked_counterexample:
  "is_chain_valid sample_digest sample_genesis
   \<and> py_prefix (difficulty sample_genesis) (hash (chain sample_genesis ! 0))
        \<noteq> target (difficulty sample_genesis)"
  by code_simp

text \<open>
  The statement of C9 at the configured difficulty: one accepted transaction, then one
  mined block.
\<close>

theorem chain_links_and_grows_witness:
  "0 < settings_blockchain_difficulty
   \<and> run_ops sample_digest sample_genesis
        ([AddTransaction sample_tx] @ [MinePending ''t2'' ''1700'' ''t3'' ''system''])
      = Some sample_mined
   \<and> previous_hash (chain sample_mined ! 1) = hash (chain sample_mined ! 0)
   \<and> hash (chain sample_mined ! 1) = calculate_hash sample_digest (chain sample_mined ! 1)
   \<and> (\<exists>bc1. run_ops sample_digest sample_genesis [AddTransaction sample_tx] = Some bc1
         \<and> prefix (chain bc1) (chain sample_mined))"
proof -
  have d: "0 < settings_blockchain_difficulty" by (simp add: settings_blockchain_difficulty_def)
  have r: "run_ops sample_digest
             (Blockchain_init sample_digest settings_mining_reward settings_blockchain_difficulty ''t0'')
             ([AddTransaction sample_tx] @ [MinePending ''t2'' ''1700'' ''t3'' ''system''])
           = Some sample_mined"
    using sample_run by (simp only: sample_genesis_def)
  have l: "(0::nat) < 1 \<and> 1 < length (chain sample_mined)" by (simp add: sample_mined_def)
  from chain_links_and_grows [OF d r] l
  have "previous_hash (chain sample_mined ! 1) = hash (chain sample_mined ! (1 - 1))
      \<and> hash (chain sample_mined ! 1) = calculate_hash sample_digest (chain sample_mined ! 1)"
    and "\<exists>bc1. run_ops sample_digest sample_genesis [AddTransaction sample_tx] = Some bc1
         \<and> prefix (chain bc1) (chain sample_mined)"
    unfolding sample_genesis_def by blast+
  with d sample_run show ?thesis by simp
qed

text \<open>
  Claim C10. A transaction with non-empty sender, recipient and id and a positive amount,
  whose id occurs in no committed block but does occur in the pending buffer, is accepted:
  \<^verbatim>\<open>add_transaction\<close> returns true and appends it, so the pending buffer holds two
  transactions with that id; and whenever the next \<^verbatim>\<open>mine_pending_transactions\<close> returns,
  it returns one block, appended to the chain, that holds both.
\<close>

theorem pending_duplicate_accepted:
  assumes "from_user tx \<noteq> []" "to_user tx \<noteq> []" "0 < amount tx" "transaction_id tx \<noteq> []"
    and "\<not> list_ex (\<lambda>b. list_ex (\<lambda>t. transaction_id t = transaction_id tx) (transactions b))
             (chain bc)"
    and "list_ex (\<lambda>t. transaction_id t = transaction_id tx) (pending_transactions bc)"
    and "chain bc \<noteq> []"
  shows "add_transaction bc tx
           = (True, bc\<lparr>pending_transactions := pending_transactions bc @ [tx]\<rparr>)
         \<and> \<not> distinct (map transaction_id (pending_transactions (snd (add_transaction bc tx))))
         \<and> (\<forall>r bc'. mine_pending_transactions H t1 ms t2 addr (snd (add_transaction bc tx))
                        = Some (r, bc')
               \<longrightarrow> (\<exists>b. r = Some b \<and> last (chain bc') = b
                         \<and> \<not> distinct (map transaction_id (transactions b))))"
proof -
  let ?bc1 = "bc\<lparr>pending_transactions := pending_transactions bc @ [tx]\<rparr>"
  from assms(1-5) have v: "validate_transaction bc tx"
    by (simp add: validate_transaction_def)
  then have a: "add_transaction bc tx = (True, ?bc1)" by (simp add: add_transaction_def)
  from assms(6) obtain t where t: "t \<in> set (pending_transactions bc)"
    "transaction_id t = transaction_id tx" by (auto simp: list_ex_iff)
  then have "transaction_id tx \<in> transaction_id ` set (pending_transactions bc)"
    by (metis imageI)
  then have nd: "\<not> distinct (map transaction_id (pending_transactions bc @ [tx]))"
    by simp
  have m: "\<exists>b. r = Some b \<and> last (chain bc') = b
             \<and> \<not> distinct (map transaction_id (transactions b))"
    if m: "mine_pending_transactions H t1 ms t2 addr ?bc1 = Some (r, bc')" for r bc'
  proof -
    from assms(7) have "get_latest_block ?bc1 \<noteq> None" "pending_transactions ?bc1 \<noteq> []"
      by (simp_all add: get_latest_block_def)
    with mine_pending_cases [OF m] obtain mined latest where r: "r = Some mined"
      and mb: "mine_block H (difficulty ?bc1)
                 (new_block t2 (reward_transaction t1 ms addr ?bc1) latest ?bc1) = Some mined"
      and bc': "bc' = (?bc1\<lparr>chain := chain ?bc1 @ [mined]\<rparr>)\<lparr>pending_transactions := []\<rparr>"
      by auto
    from mine_block_result [OF mb]
    have "transactions mined = pending_transactions bc @ [tx] @ [reward_transaction t1 ms addr ?bc1]"
      by (simp add: mined_from_def new_block_def)
    with nd have "\<not> distinct (map transaction_id (transactions mined))" by simp
    with r bc' show ?thesis by simp
  qed
  from a nd m show ?thesis by simp
qed

text \<open>
  The statement of C10 when the sample transaction is submitted a second time while the
  first is still pending; the mining that follows returns the block with both copies.
\<close>

theorem pending_duplicate_accepted_witness:
  "add_transaction sample_pending sample_tx
     = (True, sample_pending\<lparr>pending_transactions := pending_transactions sample_pending @ [sample_tx]\<rparr>)
   \<and> \<not> distinct (map transaction_id
          (pending_transactions (snd (add_transaction sample_pending sample_tx))))
   \<and> mine_pending_transactions sample_digest ''t2'' ''1700'' ''t3'' ''system''
         (snd (add_transaction sample_pending sample_tx))
       = Some (Some sample_dup_block, sample_dup_mined)
   \<and> last (chain sample_dup_mined) = sample_dup_block
   \<and> \<not> distinct (map transaction_id (transactions sample_dup_block))"
proof -
  have h: "from_user sample_tx \<noteq> []" "to_user sample_tx \<noteq> []" "0 < amount sample_tx"
    "transaction_id sample_tx \<noteq> []"
    by (simp_all add: sample_tx_def)
  have c: "\<not> list_ex (\<lambda>b. list_ex (\<lambda>t. transaction_id t = transaction_id sample_tx) (transactions b))
             (chain sample_pending)"
    by code_simp
  have p: "list_ex (\<lambda>t. transaction_id t = transaction_id sample_tx)
             (pending_transactions sample_pending)"
    by code_simp
  have n: "chain sample_pending \<noteq> []" by code_simp
  have m: "mine_pending_transactions sample_digest ''t2'' ''1700'' ''t3'' ''system''
         (snd (add_transaction sample_pending sample_tx))
       = Some (Some sample_dup_block, sample_dup_mined)"
    by code_simp
  note t = pending_duplicate_accepted [OF h c p n, of sample_digest "''t2''" "''1700''" "''t3''" "''system''"]
  from t m have "\<exists>b. Some sample_dup_block = Some b \<and> last (chain sample_dup_mined) = b
      \<and> \<not> distinct (map transaction_id (transactions b))"
    by blast
  then have "last (chain sample_dup_mined) = sample_dup_block
      \<and> \<not> distinct (map transaction_id (transactions sample_dup_block))"
    by simp
  with t m show ?thesis by blast
qed


section \<open>Properties of the anomaly scorer\<close>

lemma length_time_features: "length (time_features h) = 3"
  by (simp add: time_features_def Let_def)

lemma length_velocity_features: "length (velocity_features t h) = 4"
  by (simp add: velocity_features_def Let_def)

lemma length_history_features: "history_features h = Some hf \<Longrightarrow> length hf = 9"
  by (auto simp: history_features_def length_time_features split: if_splits option.splits)

lemma length_extract_features_try:
  "extract_features_try sl now tx h = Some fs \<Longrightarrow> length fs = 18"
  by (auto simp: extract_features_try_def length_velocity_features
      dest: length_history_features split: option.splits)

lemma length_extract_features:
  "length (extract_features sl now tx h)
     = (if extract_features_try sl now tx h = None then 23 else 18)"
  by (auto simp: extract_features_def dest: length_extract_features_try split: option.splits)

text \<open>
  Claim C3 does not hold of the code. For a transaction with a numeric amount and an
  empty history, \<^verbatim>\<open>extract_features\<close> returns 18 features when the timestamp parses
  (5 of the transaction, 9 of the history, 4 of the velocity) and the 23 zeros of the
  handler when it does not, although the comment beside \<^verbatim>\<open>np.zeros((1, 23))\<close> says the two
  numbers must match. By \<open>length_extract_features\<close> these are the two dimensions on every
  input: 18 whenever the body completes, 23 whenever it raises.
\<close>

theorem extract_features_two_dimensions:
  "length (extract_features sl now
             \<lparr>d_transaction_id = i, d_amount = Some (Num a), d_timestamp = Some NotIso\<rparr> []) = 23
   \<and> length (extract_features sl now
             \<lparr>d_transaction_id = i, d_amount = Some (Num a), d_timestamp = Some (IsoTime t)\<rparr> []) = 18"
  by (simp add: length_extract_features extract_features_try_def amount_num_def get_amount_def
      parse_tx_time_def history_features_def)

lemma rapid_check_empty: "rapid_check t [] st = Some st"
  by (simp add: rapid_check_def)

lemma rapid_check_None:
  "rapid_check t h st = None \<longleftrightarrow> h \<noteq> [] \<and> \<not> list_all (\<lambda>tx. parse_hist_time tx \<noteq> None) h"
  by (auto simp: rapid_check_def recent_transactions_def simp del: not_None_eq split: option.splits)

lemma rapid_check_bad:
  "h \<noteq> [] \<Longrightarrow> \<not> list_all (\<lambda>tx. parse_hist_time tx \<noteq> None) h \<Longrightarrow> rapid_check t h st = None"
  by (simp add: rapid_check_None)

lemma rapid_check_good:
  "h = [] \<or> list_all (\<lambda>tx. parse_hist_time tx \<noteq> None) h \<Longrightarrow> \<exists>r. rapid_check t h st = Some r"
  using rapid_check_None [of t h st] by (cases "rapid_check t h st") auto

lemma try_None_iff:
  "check_transaction_anomaly_try self sl now tx h = None \<longleftrightarrow>
     decision_function self (extract_features sl now tx h) = None
     \<or> predict self (extract_features sl now tx h) = None
     \<or> amount_num tx = None
     \<or> parse_tx_time now tx = None
     \<or> (h \<noteq> [] \<and> \<not> list_all (\<lambda>e. parse_hist_time e \<noteq> None) h)"
proof (cases "decision_function self (extract_features sl now tx h)")
  case None
  then show ?thesis by (simp add: check_transaction_anomaly_try_def Let_def)
next
  case d: (Some d)
  show ?thesis
  proof (cases "predict self (extract_features sl now tx h)")
    case None
    with d show ?thesis by (simp add: check_transaction_anomaly_try_def Let_def)
  next
    case l: (Some l)
    show ?thesis
    proof (cases "amount_num tx")
      case None
      with d l show ?thesis by (simp add: check_transaction_anomaly_try_def Let_def)
    next
      case a: (Some a)
      show ?thesis
      proof (cases "parse_tx_time now tx")
        case None
        with d l a show ?thesis by (simp add: check_transaction_anomaly_try_def Let_def)
      next
        case t: (Some t)
        show ?thesis
        proof (cases "h \<noteq> [] \<and> \<not> list_all (\<lambda>e. parse_hist_time e \<noteq> None) h")
          case True
          then have "rapid_check t h st = None" for st by (simp add: rapid_check_bad)
          with d l a t True show ?thesis
            by (simp add: check_transaction_anomaly_try_def Let_def del: not_None_eq)
        next
          case False
          then have "\<exists>r. rapid_check t h st = Some r" for st
            by (intro rapid_check_good) blast
          then obtain r where "rapid_check t h
              (time_check t (velocity_check h a
                 (large_amount_check a ([], max 0 (min 1 ((1 / 2 - d) / 1)))))) = Some r"
            by blast
          with d l a t False show ?thesis
            by (simp add: check_transaction_anomaly_try_def Let_def split: prod.splits
                del: not_None_eq)
        qed
      qed
    qed
  qed
qed



text \<open>
  Claim C7. \<^verbatim>\<open>check_transaction_anomaly\<close> is a total function of the model: every
  exception of its body is caught. Whenever a step of the body fails, that is when the
  model raises in \<^verbatim>\<open>decision_function\<close> or \<^verbatim>\<open>predict\<close>, the amount is not a number, the
  transaction's timestamp does not parse, or the history is non-empty and one of its
  timestamps does not parse, the result is the one of the handler: score 0, not
  anomalous, and the single risk factor \<^verbatim>\<open>analysis_error\<close>. By \<open>try_None_iff\<close> these are
  all the ways the body can fail.
\<close>

theorem scorer_failure_is_analysis_error:
  assumes "decision_function self (extract_features sl now tx h) = None
           \<or> predict self (extract_features sl now tx h) = None
           \<or> amount_num tx = None
           \<or> parse_tx_time now tx = None
           \<or> (h \<noteq> [] \<and> \<not> list_all (\<lambda>e. parse_hist_time e \<noteq> None) h)"
  shows "check_transaction_anomaly self sl now tx h = analysis_error now tx
         \<and> anomaly_score (check_transaction_anomaly self sl now tx h) = 0
         \<and> \<not> is_anomalous (check_transaction_anomaly self sl now tx h)
         \<and> risk_factors (check_transaction_anomaly self sl now tx h) = [''analysis_error'']"
proof -
  from assms have "check_transaction_anomaly_try self sl now tx h = None"
    by (simp only: try_None_iff)
  then have "check_transaction_anomaly self sl now tx h = analysis_error now tx"
    by (simp add: check_transaction_anomaly_def)
  then show ?thesis by (simp add: analysis_error_def)
qed

text \<open>The statement of C7 for a transaction whose timestamp does not parse.\<close>

theorem scorer_failure_is_analysis_error_witness:
  "parse_tx_time sample_noon sample_bad_request = None
   \<and> check_transaction_anomaly (sample_model (4 / 10)) sample_str_len sample_noon
        sample_bad_request []
      = analysis_error sample_noon sample_bad_request
   \<and> anomaly_score (check_transaction_anomaly (sample_model (4 / 10)) sample_str_len sample_noon
        sample_bad_request []) = 0
   \<and> \<not> is_anomalous (check_transaction_anomaly (sample_model (4 / 10)) sample_str_len sample_noon
        sample_bad_request [])
   \<and> risk_factors (check_transaction_anomaly (sample_model (4 / 10)) sample_str_len sample_noon
        sample_bad_request []) = [''analysis_error'']"
proof -
  have p: "parse_tx_time sample_noon sample_bad_request = None"
    by (simp add: parse_tx_time_def sample_bad_request_def)
  from scorer_failure_is_analysis_error
         [of "sample_model (4 / 10)" sample_str_len sample_noon sample_bad_request "[]"] p
  show ?thesis by blast
qed





lemmas scorer_defs = check_transaction_anomaly_def check_transaction_anomaly_try_def
  sample_model_def sample_request_def amount_num_def get_amount_def parse_tx_time_def
  parse_hist_time_def large_amount_check_def velocity_check_def time_check_def rapid_check_def
  recent_transactions_def hour_def sample_noon_def Let_def settings_anomaly_threshold_def
  py_round4_def round_half_even_def rule_adjustment_def rule_tags_def recent_count_def
  analysis_error_def




section \<open>Properties of the enhanced payment endpoint\<close>

lemma validate_nonce_users [simp]:
  "users_db (snd (validate_nonce t n st)) = users_db st"
  "transactions_db (snd (validate_nonce t n st)) = transactions_db st"
  "fingerprints_db (snd (validate_nonce t n st)) = fingerprints_db st"
  "blockchain_db (snd (validate_nonce t n st)) = blockchain_db st"
  "idempotency_cache (snd (validate_nonce t n st)) = idempotency_cache st"
  by (simp_all add: validate_nonce_def split: option.splits)

lemma validate_nonce_cache:
  "nonce_cache (snd (validate_nonce t n st)) = (nonce_cache st)(n := None)"
  by (auto simp: validate_nonce_def split: option.splits)

lemma validate_nonce_absent:
  "nonce_cache st n = None \<Longrightarrow> fst (validate_nonce t n st) = False"
  by (simp add: validate_nonce_def)

lemma validate_nonce_expired:
  "nonce_cache st n = Some issued \<Longrightarrow> t - issued > nonce_ttl \<Longrightarrow>
     fst (validate_nonce t n st) = False \<and> nonce_cache (snd (validate_nonce t n st)) n = None"
  by (simp add: validate_nonce_def)

lemma update_user_fields [simp]:
  "nonce_cache (update_user uid f st) = nonce_cache st"
  "idempotency_cache (update_user uid f st) = idempotency_cache st"
  "transactions_db (update_user uid f st) = transactions_db st"
  "blockchain_db (update_user uid f st) = blockchain_db st"
  "fingerprints_db (update_user uid f st) = fingerprints_db st"
  by (simp_all add: update_user_def)

lemma decline_fields [simp]:
  "nonce_cache (snd (decline e r st)) = nonce_cache st"
  "idempotency_cache (snd (decline e r st)) = idempotency_cache st"
  "users_db (snd (decline e r st)) = users_db st"
  "blockchain_db (snd (decline e r st)) = blockchain_db st"
  "fst (decline e r st) = Inl e"
  by (simp_all add: decline_def)

lemma process_payment_nonce [simp]:
  "nonce_cache (snd (process_payment sha env req k sid b sc u st)) = nonce_cache st"
  by (simp add: process_payment_def Let_def add_to_blockchain_def store_idempotency_def
      split: prod.splits)

lemma process_payment_idem:
  "idempotency_cache (snd (process_payment sha env req k sid b sc u st))
     = (idempotency_cache st)(k \<mapsto> generate_transaction_id env)"
  by (simp add: process_payment_def Let_def add_to_blockchain_def store_idempotency_def
      split: prod.splits)

lemma process_payment_response:
  "\<exists>r. fst (process_payment sha env req k sid b sc u st) = Inr r
       \<and> resp_transaction_id r = generate_transaction_id env
       \<and> resp_message r = Payment_complete \<and> new_balance r = Some b \<and> success r"
  by (simp add: process_payment_def Let_def add_to_blockchain_def store_idempotency_def
      split: prod.splits)


lemma funds_check_nonce [simp]:
  "nonce_cache (snd (funds_check sha env req k s sc st)) = nonce_cache st"
  by (simp add: funds_check_def Let_def)

lemma fresh_nonce:
  "nonce_cache (snd (p2p_payment_fresh sha env req k st)) = (nonce_cache st)(p_nonce req := None)"
  by (simp add: p2p_payment_fresh_def Let_def validate_nonce_cache case_prod_beta
      split: option.splits)

lemma fresh_rejects_absent:
  assumes "nonce_cache st (p_nonce req) = None"
  shows "fst (p2p_payment_fresh sha env req k st) = Inl INVALID_NONCE"
  using validate_nonce_absent [OF assms, of "utcnow env"]
  by (simp add: p2p_payment_fresh_def Let_def case_prod_beta)

lemma p2p_nonce_absent:
  assumes "nonce_cache st n = None"
  shows "nonce_cache (snd (p2p_payment sha env req k st)) n = None"
  using assms by (auto simp: p2p_payment_def fresh_nonce split: option.splits)

lemma balance_of_credit [simp]:
  "balance_of (update_user uid (\<lambda>u. u\<lparr>credit_used := c\<rparr>) st) x = balance_of st x"
  by (simp add: balance_of_def update_user_def map_option_case split: option.splits)


lemma funds_check_success:
  assumes "funds_check sha env req k s sc st = (Inr r, st')"
  shows "\<exists>pre u. (Inr r, st') = process_payment sha env req k sender_id
                      (balance s - p_amount req) sc u pre
           \<and> (\<forall>x. balance_of pre x = balance_of st x)
           \<and> ((case credit_mode s of None \<Rightarrow> False | Some m \<Rightarrow> m) \<or> 0 \<le> balance s - p_amount req)"
proof (cases "balance s - p_amount req < 0")
  case False
  with assms have "(Inr r, st') = process_payment sha env req k sender_id
                      (balance s - p_amount req) sc False st"
    by (simp add: funds_check_def Let_def)
  with False show ?thesis by (intro exI [of _ st] exI [of _ False]) simp
next
  case True
  show ?thesis
  proof (cases "case credit_mode s of None \<Rightarrow> False | Some m \<Rightarrow> m")
    case False
    with True assms show ?thesis by (simp add: funds_check_def Let_def decline_def)
  next
    case cm: True
    show ?thesis
    proof (cases "\<bar>balance s - p_amount req\<bar> > (case credit_limit s of None \<Rightarrow> 0 | Some l \<Rightarrow> l)")
      case True
      with \<open>balance s - p_amount req < 0\<close> cm assms show ?thesis
        by (simp add: funds_check_def Let_def decline_def)
    next
      case False
      with \<open>balance s - p_amount req < 0\<close> cm assms
      have "(Inr r, st') = process_payment sha env req k sender_id
              (balance s - p_amount req) sc True
              (update_user sender_id (\<lambda>u. u\<lparr>credit_used := Some \<bar>balance s - p_amount req\<bar>\<rparr>) st)"
        by (simp add: funds_check_def Let_def)
      with cm show ?thesis
        by (intro exI [of _ "update_user sender_id
               (\<lambda>u. u\<lparr>credit_used := Some \<bar>balance s - p_amount req\<bar>\<rparr>) st"] exI [of _ True]) simp
    qed
  qed
qed

lemma fresh_success:
  assumes "p2p_payment_fresh sha env req k st = (Inr r, st')"
  shows "\<exists>s rc sc. users_db st sender_id = Some s \<and> users_db st (p_to_user req) = Some rc
           \<and> funds_check sha env req k s sc (snd (validate_nonce (utcnow env) (p_nonce req) st))
               = (Inr r, st')"
  using assms
  by (auto simp: p2p_payment_fresh_def Let_def decline_def case_prod_beta
      split: option.splits if_splits)

lemma run_events_absent:
  "nonce_cache st n = None \<Longrightarrow> list_all (\<lambda>e. \<not> issues n e) evs \<Longrightarrow>
     nonce_cache (run_events sha st evs) n = None"
  unfolding run_events_def
proof (induction evs arbitrary: st)
  case Nil
  then show ?case by simp
next
  case (Cons e evs)
  from Cons.prems have "nonce_cache (run_event sha st e) n = None"
    by (cases e) (auto simp: get_nonce_def p2p_nonce_absent)
  with Cons show ?case by simp
qed

lemma p2p_miss:
  "check_idempotency k st = None \<or> check_idempotency k st = Some [] \<Longrightarrow>
     p2p_payment sha env req k st = p2p_payment_fresh sha env req k st"
  by (auto simp: p2p_payment_def)

lemma fresh_absent_state:
  assumes "nonce_cache st (p_nonce req) = None"
  shows "p2p_payment_fresh sha env req k st = (Inl INVALID_NONCE, st)"
  using assms by (simp add: p2p_payment_fresh_def validate_nonce_def)

text \<open>
  Claim C4. Take a payment request that reaches the nonce check (its idempotency key is
  not stored). Whatever the outcome of the request, its nonce is no longer in the store
  when the handler returns, since \<^verbatim>\<open>validate_nonce\<close> deletes it before any later step
  runs. It stays absent through any further requests to the two endpoints that do not
  issue the same token again (tokens are drawn at random), so every later validation of
  it fails and every later payment request that carries it and reaches the nonce check
  is answered \<^verbatim>\<open>INVALID_NONCE\<close>, with the state unchanged. A nonce older than five
  minutes is rejected and deleted.
\<close>

theorem nonce_single_use:
  assumes "check_idempotency k st = None \<or> check_idempotency k st = Some []"
    and "list_all (\<lambda>e. \<not> issues (p_nonce req) e) evs"
    and "st' = run_events sha (snd (p2p_payment sha env req k st)) evs"
  shows "nonce_cache (snd (p2p_payment sha env req k st)) (p_nonce req) = None
         \<and> nonce_cache st' (p_nonce req) = None
         \<and> \<not> fst (validate_nonce t (p_nonce req) st')
         \<and> ((check_idempotency k2 st' = None \<or> check_idempotency k2 st' = Some [])
              \<and> p_nonce req2 = p_nonce req
             \<longrightarrow> p2p_payment sha env2 req2 k2 st' = (Inl INVALID_NONCE, st'))
         \<and> (nonce_cache st0 n0 = Some issued \<and> t0 - issued > nonce_ttl
             \<longrightarrow> \<not> fst (validate_nonce t0 n0 st0)
                 \<and> nonce_cache (snd (validate_nonce t0 n0 st0)) n0 = None)"
proof -
  from assms(1) have "nonce_cache (snd (p2p_payment sha env req k st)) (p_nonce req) = None"
    by (simp add: p2p_miss fresh_nonce)
  moreover from this assms(2,3) have a: "nonce_cache st' (p_nonce req) = None"
    by (simp add: run_events_absent)
  moreover from a have "\<not> fst (validate_nonce t (p_nonce req) st')"
    by (simp add: validate_nonce_absent)
  moreover have "p2p_payment sha env2 req2 k2 st' = (Inl INVALID_NONCE, st')"
    if "check_idempotency k2 st' = None \<or> check_idempotency k2 st' = Some []"
      and "p_nonce req2 = p_nonce req"
    using that a by (simp add: p2p_miss fresh_absent_state)
  moreover have "\<not> fst (validate_nonce t0 n0 st0)
                 \<and> nonce_cache (snd (validate_nonce t0 n0 st0)) n0 = None"
    if "nonce_cache st0 n0 = Some issued" "t0 - issued > nonce_ttl"
    using validate_nonce_expired [OF that] by simp
  ultimately show ?thesis by blast
qed

lemma p2p_hit:
  assumes "check_idempotency k st = Some t" "t \<noteq> []"
  shows "snd (p2p_payment sha env req k st) = st
         \<and> (\<exists>r. fst (p2p_payment sha env req k st) = Inr r \<and> resp_transaction_id r = t
                \<and> resp_message r = Payment_already_processed \<and> success r)"
  using assms by (simp add: p2p_payment_def)

lemma funds_check_complete:
  assumes "funds_check sha env req k s sc st = (Inr r, st')"
  shows "resp_message r = Payment_complete
         \<and> resp_transaction_id r = generate_transaction_id env
         \<and> idempotency_cache st' k = Some (generate_transaction_id env)"
proof -
  from funds_check_success [OF assms] obtain pre u
    where p: "(Inr r, st') = process_payment sha env req k sender_id
                      (balance s - p_amount req) sc u pre" by blast
  from process_payment_response [of sha env req k sender_id "balance s - p_amount req" sc u pre]
    process_payment_idem [of sha env req k sender_id "balance s - p_amount req" sc u pre]
  show ?thesis unfolding p [symmetric] by auto
qed

lemma p2p_complete:
  assumes "p2p_payment sha env req k st = (Inr r, st')" "resp_message r = Payment_complete"
  shows "p2p_payment_fresh sha env req k st = (Inr r, st')"
  using assms by (auto simp: p2p_payment_def split: option.splits if_splits)

lemma generate_nonempty: "generate_transaction_id env \<noteq> []"
  by (simp add: generate_transaction_id_def)

lemma funds_check_idem_other:
  "k' \<noteq> k \<Longrightarrow> idempotency_cache (snd (funds_check sha env req k' s sc st)) k
      = idempotency_cache st k"
  by (simp add: funds_check_def Let_def process_payment_idem)

lemma fresh_idem_other:
  "k' \<noteq> k \<Longrightarrow> idempotency_cache (snd (p2p_payment_fresh sha env req k' st)) k
      = idempotency_cache st k"
  by (simp add: p2p_payment_fresh_def Let_def case_prod_beta funds_check_idem_other
      split: option.splits)

lemma p2p_keeps_entry:
  assumes "idempotency_cache st k = Some t" "t \<noteq> []"
  shows "idempotency_cache (snd (p2p_payment sha env req k' st)) k = Some t"
proof (cases "k' = k")
  case True
  with assms p2p_hit [of k st t sha env req] show ?thesis by (simp add: check_idempotency_def)
next
  case False
  have "idempotency_cache (snd (p2p_payment sha env req k' st)) k = idempotency_cache st k"
    using False by (simp add: p2p_payment_def fresh_idem_other split: option.splits)
  with assms show ?thesis by simp
qed

lemma run_events_keeps_entry:
  "idempotency_cache st k = Some t \<Longrightarrow> t \<noteq> [] \<Longrightarrow>
     idempotency_cache (run_events sha st evs) k = Some t"
  unfolding run_events_def
proof (induction evs arbitrary: st)
  case Nil
  then show ?case by simp
next
  case (Cons e evs)
  from Cons.prems have "idempotency_cache (run_event sha st e) k = Some t"
    by (cases e) (auto simp: get_nonce_def p2p_keeps_entry)
  with Cons show ?case by simp
qed

text \<open>
  Claim C5. If the idempotency key of a request maps to a stored transaction id, the
  handler returns that id and the state is the one it started from: no balance, no
  transaction record, no ledger entry, nothing else changes. In particular, after a
  completed payment under key \<open>k\<close> and any further requests to the two endpoints, a
  request under \<open>k\<close> with any payload returns the id the completed payment produced.
\<close>

theorem idempotent_replay:
  "(check_idempotency k st = Some t \<and> t \<noteq> []
      \<longrightarrow> snd (p2p_payment sha env req k st) = st
          \<and> (\<exists>r. fst (p2p_payment sha env req k st) = Inr r \<and> resp_transaction_id r = t
                 \<and> resp_message r = Payment_already_processed))
   \<and> (p2p_payment sha env1 req1 k st0 = (Inr r1, st1) \<and> resp_message r1 = Payment_complete
        \<and> st2 = run_events sha st1 evs
      \<longrightarrow> snd (p2p_payment sha env req k st2) = st2
          \<and> (\<exists>r. fst (p2p_payment sha env req k st2) = Inr r
                 \<and> resp_transaction_id r = resp_transaction_id r1
                 \<and> resp_message r = Payment_already_processed))"
proof (intro conjI impI)
  assume "check_idempotency k st = Some t \<and> t \<noteq> []"
  then show "snd (p2p_payment sha env req k st) = st"
    and "\<exists>r. fst (p2p_payment sha env req k st) = Inr r \<and> resp_transaction_id r = t
                 \<and> resp_message r = Payment_already_processed"
    using p2p_hit [of k st t sha env req] by blast+
next
  assume h: "p2p_payment sha env1 req1 k st0 = (Inr r1, st1) \<and> resp_message r1 = Payment_complete
        \<and> st2 = run_events sha st1 evs"
  then have "p2p_payment_fresh sha env1 req1 k st0 = (Inr r1, st1)" by (simp add: p2p_complete)
  from fresh_success [OF this] obtain s sc
    where "funds_check sha env1 req1 k s sc
             (snd (validate_nonce (utcnow env1) (p_nonce req1) st0)) = (Inr r1, st1)" by blast
  from funds_check_complete [OF this]
  have id: "resp_transaction_id r1 = generate_transaction_id env1"
    and "idempotency_cache st1 k = Some (generate_transaction_id env1)" by simp_all
  with h have "idempotency_cache st2 k = Some (generate_transaction_id env1)"
    by (simp add: run_events_keeps_entry generate_nonempty)
  then have c: "check_idempotency k st2 = Some (resp_transaction_id r1)"
    by (simp add: check_idempotency_def id)
  have ne: "resp_transaction_id r1 \<noteq> []" by (simp add: id generate_nonempty)
  from p2p_hit [OF c ne, of sha env req]
  show "snd (p2p_payment sha env req k st2) = st2"
    and "\<exists>r. fst (p2p_payment sha env req k st2) = Inr r
                 \<and> resp_transaction_id r = resp_transaction_id r1
                 \<and> resp_message r = Payment_already_processed"
    by blast+
qed

lemmas enhanced_defs = p2p_payment_def p2p_payment_fresh_def funds_check_def process_payment_def
  validate_nonce_def check_idempotency_def store_idempotency_def add_to_blockchain_def
  update_user_def decline_def declined_record_def detect_fraud_def verify_fingerprint_def
  generate_transaction_id_def sender_id_def nonce_ttl_def get_nonce_def run_events_def
  sample_state_def sample_env_def sample_payment_def sample_user_def sample_sha_def
  sample_noon_def balance_of_def hard_stop_def Let_def

lemma sample_first_payment:
  "\<exists>r. p2p_payment sample_sha sample_env (sample_payment ''user_67890'' 100)
          ''key-0000000001'' sample_state = (Inr r, sample_paid)
       \<and> resp_message r = Payment_complete
       \<and> resp_transaction_id r = ''tx_0123456789abcdef''"
  unfolding sample_paid_def by (simp add: enhanced_defs)

lemma sample_paid_balances:
  "balance_of sample_paid ''user_12345'' = Some 900"
  "balance_of sample_paid ''user_67890'' = Some 600"
  unfolding sample_paid_def by (simp_all add: enhanced_defs)

lemma sample_failure:
  "fst (p2p_payment sample_sha sample_env (sample_payment ''user_00000'' 100)
          ''key-0000000001'' sample_state) = Inl RECIPIENT_NOT_FOUND"
  "check_idempotency ''key-0000000001'' sample_state = None"
  "check_idempotency ''key-0000000002'' sample_after_failure = None"
  unfolding sample_after_failure_def by (simp_all add: enhanced_defs)

text \<open>
  The statement of C4 for a request whose nonce is accepted and which then fails because
  the recipient does not exist: the same nonce is refused afterwards. The nonce of the
  sample state, issued a minute before noon, is refused 5 minutes after noon.
\<close>

theorem nonce_single_use_witness:
  "check_idempotency ''key-0000000001'' sample_state = None
   \<and> fst (p2p_payment sample_sha sample_env (sample_payment ''user_00000'' 100)
            ''key-0000000001'' sample_state) = Inl RECIPIENT_NOT_FOUND
   \<and> nonce_cache sample_after_failure ''nonce-0000000001'' = None
   \<and> \<not> fst (validate_nonce sample_noon ''nonce-0000000001'' sample_after_failure)
   \<and> p2p_payment sample_sha sample_env (sample_payment ''user_67890'' 100)
        ''key-0000000002'' sample_after_failure
      = (Inl INVALID_NONCE, sample_after_failure)
   \<and> nonce_cache sample_state ''nonce-0000000001'' = Some (sample_noon - 60000000)
   \<and> (sample_noon + 300000000) - (sample_noon - 60000000) > nonce_ttl
   \<and> \<not> fst (validate_nonce (sample_noon + 300000000) ''nonce-0000000001'' sample_state)"
proof -
  have n: "p_nonce (sample_payment ''user_00000'' 100) = ''nonce-0000000001''"
    "p_nonce (sample_payment ''user_67890'' 100) = ''nonce-0000000001''"
    by (simp_all add: sample_payment_def)
  have i: "list_all (\<lambda>e. \<not> issues (p_nonce (sample_payment ''user_00000'' 100)) e)
             [GetNonce sample_noon ''nonce-0000000002'']"
    by (simp add: sample_payment_def)
  have e: "nonce_cache sample_state ''nonce-0000000001'' = Some (sample_noon - 60000000)"
    "(sample_noon + 300000000) - (sample_noon - 60000000) > nonce_ttl"
    by (simp_all add: sample_state_def nonce_ttl_def)
  note t = nonce_single_use [where k = "''key-0000000001''" and st = sample_state
      and req = "sample_payment ''user_00000'' 100" and evs = "[GetNonce sample_noon ''nonce-0000000002'']"
      and st' = sample_after_failure and sha = sample_sha and env = sample_env
      and t = sample_noon and ?k2.0 = "''key-0000000002''" and ?req2.0 = "sample_payment ''user_67890'' 100"
      and ?env2.0 = sample_env and ?st0.0 = sample_state and ?n0.0 = "''nonce-0000000001''"
      and issued = "sample_noon - 60000000" and ?t0.0 = "sample_noon + 300000000",
      OF disjI1 [OF sample_failure(2)] i sample_after_failure_def]
  from t sample_failure e n show ?thesis by simp
qed

text \<open>
  The statement of C5 for a payment of 100.00 replayed with the amount 999.00: the replay
  returns the first transaction's id and the sender's balance stays 900.00.
\<close>

theorem idempotent_replay_witness:
  "(\<exists>r1. p2p_payment sample_sha sample_env (sample_payment ''user_67890'' 100)
            ''key-0000000001'' sample_state = (Inr r1, sample_paid)
         \<and> resp_message r1 = Payment_complete
         \<and> resp_transaction_id r1 = ''tx_0123456789abcdef'')
   \<and> check_idempotency ''key-0000000001'' sample_paid = Some ''tx_0123456789abcdef''
   \<and> snd (p2p_payment sample_sha (sample_env\<lparr>uuid_hex := ''ffffffffffffffff''\<rparr>)
             (sample_payment ''user_67890'' 999) ''key-0000000001'' sample_paid) = sample_paid
   \<and> (\<exists>r. fst (p2p_payment sample_sha (sample_env\<lparr>uuid_hex := ''ffffffffffffffff''\<rparr>)
                  (sample_payment ''user_67890'' 999) ''key-0000000001'' sample_paid) = Inr r
          \<and> resp_transaction_id r = ''tx_0123456789abcdef''
          \<and> resp_message r = Payment_already_processed)
   \<and> balance_of sample_paid ''user_12345'' = Some 900"
proof -
  from sample_first_payment obtain r1
    where p: "p2p_payment sample_sha sample_env (sample_payment ''user_67890'' 100)
            ''key-0000000001'' sample_state = (Inr r1, sample_paid)"
      and m: "resp_message r1 = Payment_complete"
      and i: "resp_transaction_id r1 = ''tx_0123456789abcdef''" by blast
  have r: "sample_paid = run_events sample_sha sample_paid []" by (simp add: run_events_def)
  have c: "check_idempotency ''key-0000000001'' sample_paid = Some ''tx_0123456789abcdef''"
    "''tx_0123456789abcdef'' \<noteq> []"
    unfolding sample_paid_def by (simp_all add: enhanced_defs)
  note t = idempotent_replay [where k = "''key-0000000001''" and sha = sample_sha
      and ?env1.0 = sample_env and st = sample_paid and t = "''tx_0123456789abcdef''"
      and ?req1.0 = "sample_payment ''user_67890'' 100" and ?st0.0 = sample_state
      and ?r1.0 = r1 and ?st1.0 = sample_paid and ?st2.0 = sample_paid and evs = "[]"
      and env = "sample_env\<lparr>uuid_hex := ''ffffffffffffffff''\<rparr>"
      and req = "sample_payment ''user_67890'' 999"]
  from t c have "snd (p2p_payment sample_sha (sample_env\<lparr>uuid_hex := ''ffffffffffffffff''\<rparr>)
             (sample_payment ''user_67890'' 999) ''key-0000000001'' sample_paid) = sample_paid"
    by blast
  moreover from t p m r
  have "\<exists>r. fst (p2p_payment sample_sha (sample_env\<lparr>uuid_hex := ''ffffffffffffffff''\<rparr>)
                  (sample_payment ''user_67890'' 999) ''key-0000000001'' sample_paid) = Inr r
          \<and> resp_transaction_id r = resp_transaction_id r1
          \<and> resp_message r = Payment_already_processed"
    by blast
  ultimately show ?thesis using p m i c sample_paid_balances(1) by auto
qed


section \<open>Transfers and the fraud screen\<close>












lemmas router_defs = process_p2p_payment_def transfer_def flagged_def pending_doc_def
  scored_transaction_def service_add_transaction_def insert_one_def find_one_def
  stored_balance_def sample_router_state_def sample_router_env_def sample_router_request_def
  add_transaction_def validate_transaction_def sample_genesis_def Blockchain_init_def
  create_genesis_block_def




text \<open>
  In the router both new balances are computed before the first write, and the second
  write wins: a transfer of 100.00 from an account to itself leaves it 100.00 richer.
\<close>

lemma router_self_transfer_example:
  "\<exists>rr rst'. process_p2p_payment sample_digest (sample_model (4 / 10)) sample_str_len
       sample_router_env ''user_a'' (sample_router_request ''user_a'' 100) sample_router_state
         = Some (Inr rr, rst') \<and> rs_success rr
       \<and> stored_balance sample_router_state ''user_a'' = Some 5000
       \<and> stored_balance rst' ''user_a'' = Some 5100"
  by (simp add: router_defs scorer_defs)









end
